theory Spec2Isabelle
  imports Complex_Main "HOL-Library.Monad_Syntax"
begin

section \<open>JavaScript numbers and strings\<close>

text \<open>
  The sources are the three JavaScript files of the repository: \<^verbatim>\<open>hover2.js\<close> (the
  extended pipeline with a learned hover policy), the simple variant of the same pipeline
  (fixed hover policy) and \<^verbatim>\<open>hover.js\<close> (the HSV hover optimiser).

  A JavaScript number is an IEEE double.  The embedding reads a finite number as a
  \<^typ>\<open>real\<close>: rounding to 53 bits is abstracted away.  Where the code can meet the
  special values (the result of \<^verbatim>\<open>Number\<close> and \<^verbatim>\<open>parseInt\<close> on a string, and
  \<^verbatim>\<open>clamp255\<close> applied to it), the type \<open>jsnum\<close> adds NaN and the two infinities.
  The optimisation pipeline receives the parser's output, three finite channels, and is
  modelled over \<^typ>\<open>real\<close>; arrays are lists.
\<close>

datatype jsnum = NaN | NegInf | Fin real | PosInf

definition isNaN :: "jsnum \<Rightarrow> bool" where
  "isNaN x = (x = NaN)"

text \<open>\<^verbatim>\<open>Math.min\<close>, \<^verbatim>\<open>Math.max\<close>: NaN if an argument is NaN.\<close>

fun Math_min :: "jsnum \<Rightarrow> jsnum \<Rightarrow> jsnum" where
  "Math_min NaN y = NaN"
| "Math_min x NaN = NaN"
| "Math_min NegInf y = NegInf"
| "Math_min x NegInf = NegInf"
| "Math_min PosInf y = y"
| "Math_min x PosInf = x"
| "Math_min (Fin a) (Fin b) = Fin (min a b)"

fun Math_max :: "jsnum \<Rightarrow> jsnum \<Rightarrow> jsnum" where
  "Math_max NaN y = NaN"
| "Math_max x NaN = NaN"
| "Math_max PosInf y = PosInf"
| "Math_max x PosInf = PosInf"
| "Math_max NegInf y = y"
| "Math_max x NegInf = x"
| "Math_max (Fin a) (Fin b) = Fin (max a b)"

text \<open>\<^verbatim>\<open>Math.round\<close> rounds to the nearest integer, a tie towards \<open>+\<infinity>\<close>.\<close>

definition round_half_up :: "real \<Rightarrow> real" where
  "round_half_up x = of_int \<lfloor>x + 1 / 2\<rfloor>"

fun Math_round :: "jsnum \<Rightarrow> jsnum" where
  "Math_round (Fin x) = Fin (round_half_up x)"
| "Math_round x = x"

text \<open>
  \<^verbatim>\<open>function clamp01(x){ return Math.max(0, Math.min(1, x)); }\<close> on the finite values of
  the pipeline, and
  \<^verbatim>\<open>function clamp255(x){ return Math.round(Math.max(0, Math.min(255, x))); }\<close>
\<close>

definition clamp01 :: "real \<Rightarrow> real" where
  "clamp01 x = max 0 (min 1 x)"

definition clamp255 :: "jsnum \<Rightarrow> jsnum" where
  "clamp255 x = Math_round (Math_max (Fin 0) (Math_min (Fin 255) x))"

subsection \<open>Strings\<close>

text \<open>
  A string is a list of code units; the model covers the code units below 256
  (\<^typ>\<open>char\<close>).  Among them the white space and line terminators that \<^verbatim>\<open>trim\<close> and
  \<^verbatim>\<open>Number\<close> strip are TAB, LF, VT, FF, CR, SP and NBSP.
\<close>

definition isWhite :: "char \<Rightarrow> bool" where
  "isWhite c = (of_char c \<in> {9, 10, 11, 12, 13, 32, 160 :: nat})"

definition trim :: "string \<Rightarrow> string" where
  "trim s = rev (dropWhile isWhite (rev (dropWhile isWhite s)))"

text \<open>\<^verbatim>\<open>text.split(",")\<close>: the pieces between the commas; the empty string gives one
  empty piece.\<close>

fun split_comma :: "string \<Rightarrow> string list" where
  "split_comma [] = [[]]"
| "split_comma (c # cs) =
     (if c = CHR '','' then [] # split_comma cs
      else (case split_comma cs of
              t # ts \<Rightarrow> (c # t) # ts
            | [] \<Rightarrow> [[c]]))"

definition isDigit :: "char \<Rightarrow> bool" where
  "isDigit c = (48 \<le> (of_char c :: nat) \<and> (of_char c :: nat) \<le> 57)"

text \<open>The value of a digit in a radix up to 16; \<open>None\<close> when the character is no digit
  of that radix.\<close>

definition digitIn :: "nat \<Rightarrow> char \<Rightarrow> nat option" where
  "digitIn radix c =
     (let k = (of_char c :: nat);
          v = (if 48 \<le> k \<and> k \<le> 57 then Some (k - 48)
               else if 97 \<le> k \<and> k \<le> 102 then Some (k - 87)
               else if 65 \<le> k \<and> k \<le> 70 then Some (k - 55)
               else None)
      in case v of
           None \<Rightarrow> None
         | Some d \<Rightarrow> if d < radix then Some d else None)"

fun digitsValue :: "nat \<Rightarrow> nat \<Rightarrow> string \<Rightarrow> nat option" where
  "digitsValue radix acc [] = Some acc"
| "digitsValue radix acc (c # cs) =
     (case digitIn radix c of
        None \<Rightarrow> None
      | Some d \<Rightarrow> digitsValue radix (radix * acc + d) cs)"

text \<open>A non-empty run of digits of the radix, and nothing else.\<close>

definition digitString :: "nat \<Rightarrow> string \<Rightarrow> nat option" where
  "digitString radix s = (if s = [] then None else digitsValue radix 0 s)"

text \<open>
  The language's \<^verbatim>\<open>Number(string)\<close> (StringToNumber of ECMAScript), which the parser
  calls on every token.  After trimming: the empty string is 0; \<^verbatim>\<open>0x\<close>, \<^verbatim>\<open>0o\<close>,
  \<^verbatim>\<open>0b\<close> (either case) start an unsigned integer of radix 16, 8, 2; otherwise an
  optional sign, then \<^verbatim>\<open>Infinity\<close> or a decimal literal: digits, an optional fraction
  (one of the two digit runs may be empty, not both), an optional exponent.  Anything
  else is NaN.
\<close>

definition exponentPart :: "string \<Rightarrow> int option" where
  "exponentPart s =
     (case s of
        [] \<Rightarrow> Some 0
      | e # r \<Rightarrow>
          if e = CHR ''e'' \<or> e = CHR ''E'' then
            (case r of
               [] \<Rightarrow> None
             | c # ds \<Rightarrow>
                 if c = CHR ''+'' then map_option int (digitString 10 ds)
                 else if c = CHR ''-'' then map_option (\<lambda>n. - int n) (digitString 10 ds)
                 else map_option int (digitString 10 r))
          else None)"

definition pow10 :: "int \<Rightarrow> real" where
  "pow10 e = (if 0 \<le> e then 10 ^ nat e else 1 / 10 ^ nat (- e))"

definition strUnsignedDecimal :: "string \<Rightarrow> real option" where
  "strUnsignedDecimal s =
     (let ip = takeWhile isDigit s;
          r1 = dropWhile isDigit s;
          fp = (case r1 of
                  [] \<Rightarrow> []
                | c # r \<Rightarrow> if c = CHR ''.'' then takeWhile isDigit r else []);
          r2 = (case r1 of
                  [] \<Rightarrow> []
                | c # r \<Rightarrow> if c = CHR ''.'' then dropWhile isDigit r else r1)
      in if ip = [] \<and> fp = [] then None
         else (case exponentPart r2 of
                 None \<Rightarrow> None
               | Some e \<Rightarrow>
                   (case digitsValue 10 0 (ip @ fp) of
                      None \<Rightarrow> None
                    | Some m \<Rightarrow> Some (real m / 10 ^ length fp * pow10 e))))"

definition nonDecimalRadix :: "string \<Rightarrow> nat option" where
  "nonDecimalRadix s =
     (case s of
        z # x # ds \<Rightarrow>
          if z = CHR ''0'' then
            (if x = CHR ''x'' \<or> x = CHR ''X'' then Some 16
             else if x = CHR ''o'' \<or> x = CHR ''O'' then Some 8
             else if x = CHR ''b'' \<or> x = CHR ''B'' then Some 2
             else None)
          else None
      | _ \<Rightarrow> None)"

definition Number :: "string \<Rightarrow> jsnum" where
  "Number str =
     (let s = trim str in
      if s = [] then Fin 0
      else (case nonDecimalRadix s of
              Some radix \<Rightarrow>
                (case digitString radix (drop 2 s) of
                   None \<Rightarrow> NaN
                 | Some n \<Rightarrow> Fin (real n))
            | None \<Rightarrow>
                (let neg = (hd s = CHR ''-'');
                     u = (if hd s = CHR ''+'' \<or> hd s = CHR ''-'' then tl s else s)
                 in if u = ''Infinity'' then (if neg then NegInf else PosInf)
                    else (case strUnsignedDecimal u of
                            None \<Rightarrow> NaN
                          | Some v \<Rightarrow> Fin (if neg then - v else v)))))"

text \<open>
  \<^verbatim>\<open>parseInt(string, 10)\<close>: leading white space is skipped, a sign is read, then the
  longest run of decimal digits; NaN when that run is empty.  What follows the digits
  is ignored.
\<close>

definition parseInt10 :: "string \<Rightarrow> jsnum" where
  "parseInt10 str =
     (let s = dropWhile isWhite str;
          neg = (s \<noteq> [] \<and> hd s = CHR ''-'');
          u = (if s \<noteq> [] \<and> (hd s = CHR ''+'' \<or> hd s = CHR ''-'') then tl s else s)
      in case digitString 10 (takeWhile isDigit u) of
           None \<Rightarrow> NaN
         | Some n \<Rightarrow> Fin (if neg then - real n else real n))"

section \<open>The parsers\<close>

text \<open>
  \<^verbatim>\<open>
  function parseRGB(text){
    const parts = text.split(",").map(s => s.trim()).filter(Boolean);
    if (parts.length !== 3) return null;
    const nums = parts.map(n => Number(n));
    if (nums.some(n => Number.isNaN(n))) return null;
    return nums.map(clamp255);
  }
  \<close>
  \<open>None\<close> is the \<^verbatim>\<open>null\<close> the caller tests; \<^verbatim>\<open>filter(Boolean)\<close> keeps the non-empty
  strings.
\<close>

definition parseRGB :: "string \<Rightarrow> jsnum list option" where
  "parseRGB text =
     (let parts = filter (\<lambda>s. s \<noteq> []) (map trim (split_comma text)) in
      if length parts \<noteq> 3 then None
      else (let nums = map Number parts in
            if list_ex isNaN nums then None
            else Some (map clamp255 nums)))"

text \<open>
  The parser of \<^verbatim>\<open>hover.js\<close>:
  \<^verbatim>\<open>
  function parseRgbInput(value){
    const parts = value.split(',').map(v => parseInt(v.trim(), 10));
    if (parts.length !== 3 || parts.some(v => isNaN(v) || v < 0 || v > 255)) {
      return null;
    }
    return parts.map(v => v / 255);
  }
  \<close>
  A comparison with NaN is false; division by 255 keeps NaN and the infinities.
\<close>

fun js_less :: "jsnum \<Rightarrow> jsnum \<Rightarrow> bool" where
  "js_less NaN y = False"
| "js_less x NaN = False"
| "js_less PosInf y = False"
| "js_less x NegInf = False"
| "js_less NegInf y = True"
| "js_less x PosInf = True"
| "js_less (Fin a) (Fin b) = (a < b)"

fun div255 :: "jsnum \<Rightarrow> jsnum" where
  "div255 (Fin x) = Fin (x / 255)"
| "div255 x = x"

definition parseRgbInput :: "string \<Rightarrow> jsnum list option" where
  "parseRgbInput v =
     (let parts = map (\<lambda>v. parseInt10 (trim v)) (split_comma v) in
      if length parts \<noteq> 3
         \<or> list_ex (\<lambda>v. isNaN v \<or> js_less v (Fin 0) \<or> js_less (Fin 255) v) parts
      then None
      else Some (map div255 parts))"

section \<open>Colour space utilities\<close>

text \<open>
  \<^verbatim>\<open>
  function rgb01([r,g,b]){ return [r/255, g/255, b/255]; }
  function rgb255([r,g,b]){ return [clamp255(r), clamp255(g), clamp255(b)]; }
  \<close>
  The parameter pattern \<^verbatim>\<open>[r,g,b]\<close> reads the first three elements.  An array with fewer
  elements would bind \<^verbatim>\<open>undefined\<close> (NaN in the arithmetic); every colour of the
  pipeline has three channels, and the model is left unspecified below that length.
\<close>

fun rgb01 :: "real list \<Rightarrow> real list" where
  "rgb01 (r # g # b # rest) = [r / 255, g / 255, b / 255]"

fun rgb255 :: "real list \<Rightarrow> jsnum list" where
  "rgb255 (r # g # b # rest) = [clamp255 (Fin r), clamp255 (Fin g), clamp255 (Fin b)]"

text \<open>
  \<^verbatim>\<open>
  function srgbToLinear(c){
    return (c <= 0.04045) ? (c/12.92) : Math.pow((c+0.055)/1.055, 2.4);
  }
  function relLuminance(rgb01v){
    const [r,g,b] = rgb01v.map(srgbToLinear);
    return 0.2126*r + 0.7152*g + 0.0722*b;
  }
  function contrastRatio(L1, L2){
    const lighter = Math.max(L1, L2);
    const darker  = Math.min(L1, L2);
    return (lighter + 0.05) / (darker + 0.05);
  }
  \<close>
  The base of the power is positive in its branch, where \<^verbatim>\<open>Math.pow\<close> is \<open>powr\<close>.
\<close>

definition srgbToLinear :: "real \<Rightarrow> real" where
  "srgbToLinear c =
     (if c \<le> 0.04045 then c / 12.92 else ((c + 0.055) / 1.055) powr 2.4)"

definition relLuminance :: "real list \<Rightarrow> real" where
  "relLuminance rgb01v =
     (case map srgbToLinear rgb01v of
        r # g # b # rest \<Rightarrow> 0.2126 * r + 0.7152 * g + 0.0722 * b)"

definition contrastRatio :: "real \<Rightarrow> real \<Rightarrow> real" where
  "contrastRatio L1 L2 =
     (let lighter = max L1 L2;
          darker = min L1 L2
      in (lighter + 0.05) / (darker + 0.05))"

text \<open>
  The remainder operator \<^verbatim>\<open>%\<close> takes the sign of the dividend:
  \<open>x % y = x - y * trunc (x / y)\<close>.  The code uses it with the divisors 6 and 1.
\<close>

definition trunc :: "real \<Rightarrow> int" where
  "trunc x = (if 0 \<le> x then \<lfloor>x\<rfloor> else \<lceil>x\<rceil>)"

definition js_rem :: "real \<Rightarrow> real \<Rightarrow> real" where
  "js_rem x y = x - y * of_int (trunc (x / y))"

text \<open>
  A quotient whose divisor is 0 is an infinity or NaN in JavaScript, no real number:
  the model's division returns \<open>None\<close> there.
\<close>

definition checked_div :: "real \<Rightarrow> real \<Rightarrow> real option" where
  "checked_div a b = (if b = 0 then None else Some (a / b))"

text \<open>
  \<^verbatim>\<open>
  function rgbToHsv([r,g,b]) {
    const max = Math.max(r,g,b), min = Math.min(r,g,b);
    const d = max - min;
    let h = 0;
    const s = max === 0 ? 0 : d / max;
    const v = max;
    if (d !== 0) {
      switch (max) {
        case r: h = ((g - b) / d) % 6; break;
        case g: h = (b - r) / d + 2; break;
        case b: h = (r - g) / d + 4; break;
      }
      h /= 6;
      if (h < 0) h += 1;
    }
    return [h, s, v];
  }
  \<close>
  The result is \<open>None\<close> when a division by zero is performed on the path taken.
\<close>

definition rgbToHsv :: "real list \<Rightarrow> real list option" where
  "rgbToHsv c =
     (case c of
        r # g # b # rest \<Rightarrow>
          (let mx = max r (max g b);
               mn = min r (min g b);
               d = mx - mn
           in do {
             s \<leftarrow> (if mx = 0 then Some 0 else checked_div d mx);
             h \<leftarrow> (if d \<noteq> 0 then do {
                     h0 \<leftarrow> (if mx = r then
                             do { q \<leftarrow> checked_div (g - b) d; Some (js_rem q 6) }
                           else if mx = g then
                             do { q \<leftarrow> checked_div (b - r) d; Some (q + 2) }
                           else if mx = b then
                             do { q \<leftarrow> checked_div (r - g) d; Some (q + 4) }
                           else Some 0);
                     h1 \<leftarrow> checked_div h0 6;
                     Some (if h1 < 0 then h1 + 1 else h1)
                   } else Some 0);
             Some [h, s, mx]
           })
      | _ \<Rightarrow> None)"

text \<open>
  \<^verbatim>\<open>
  function hsvToRgb([h,s,v]) {
    const i = Math.floor(h * 6);
    const f = h * 6 - i;
    const p = v * (1 - s);
    const q = v * (1 - f * s);
    const t = v * (1 - (1 - f) * s);
    switch (i % 6) {
      case 0: return [v, t, p];
      case 1: return [q, v, p];
      case 2: return [p, v, t];
      case 3: return [p, q, v];
      case 4: return [t, p, v];
      case 5: return [v, p, q];
    }
  }
  \<close>
  When no case matches (a negative sector) the function returns \<^verbatim>\<open>undefined\<close>: \<open>None\<close>.
\<close>

definition hsvToRgb :: "real list \<Rightarrow> real list option" where
  "hsvToRgb c =
     (case c of
        h # s # v # rest \<Rightarrow>
          (let i = \<lfloor>h * 6\<rfloor>;
               f = h * 6 - of_int i;
               p = v * (1 - s);
               q = v * (1 - f * s);
               t = v * (1 - (1 - f) * s);
               k = js_rem (of_int i) 6
           in if k = 0 then Some [v, t, p]
              else if k = 1 then Some [q, v, p]
              else if k = 2 then Some [p, v, t]
              else if k = 3 then Some [p, q, v]
              else if k = 4 then Some [t, p, v]
              else if k = 5 then Some [v, p, q]
              else None)
      | _ \<Rightarrow> None)"

section \<open>The hover derivation\<close>

text \<open>
  \<^verbatim>\<open>
  function hoverFromBase(base01, theta){
    // theta = [t, fr, fg, fb]
    const t  = clamp01(theta[0]);
    const fr = clamp01(theta[1]);
    const fg = clamp01(theta[2]);
    const fb = clamp01(theta[3]);
    const [r,g,b] = base01;
    const target = [ clamp01(r * fr), clamp01(g * fg), clamp01(b * fb) ];
    return [ (1 - t) * r + t * target[0],
             (1 - t) * g + t * target[1],
             (1 - t) * b + t * target[2] ];
  }
  \<close>
  (\<^verbatim>\<open>hover2.js\<close>).  The policy vector has four entries wherever the code builds one.
\<close>

definition hoverFromBase :: "real list \<Rightarrow> real list \<Rightarrow> real list" where
  "hoverFromBase base01 theta =
     (let t = clamp01 (theta ! 0);
          fr = clamp01 (theta ! 1);
          fg = clamp01 (theta ! 2);
          fb = clamp01 (theta ! 3)
      in case base01 of
           r # g # b # rest \<Rightarrow>
             (let target = [clamp01 (r * fr), clamp01 (g * fg), clamp01 (b * fb)]
              in [(1 - t) * r + t * target ! 0,
                  (1 - t) * g + t * target ! 1,
                  (1 - t) * b + t * target ! 2]))"

text \<open>
  The simple variant has the policy built in:
  \<^verbatim>\<open>
  function hoverFromBase(base01){
    const t = 0.18;
    const [r,g,b] = base01;
    const target = [ clamp01(r * 0.82), clamp01(g * 0.86), clamp01(b * 0.92) ];
    return [ (1 - t) * r + t * target[0], ... ];
  }
  \<close>
\<close>

definition hoverFromBase_fixed :: "real list \<Rightarrow> real list" where
  "hoverFromBase_fixed base01 =
     (let t = 0.18 in
      case base01 of
        r # g # b # rest \<Rightarrow>
          (let target = [clamp01 (r * 0.82), clamp01 (g * 0.86), clamp01 (b * 0.92)]
           in [(1 - t) * r + t * target ! 0,
               (1 - t) * g + t * target ! 1,
               (1 - t) * b + t * target ! 2]))"

section \<open>Loss functions\<close>

text \<open>
  \<^verbatim>\<open>
  function sigmoid(x){ return 1 / (1 + Math.exp(-x)); }
  function textColorFromParams(p){
    return [sigmoid(p[0]), sigmoid(p[1]), sigmoid(p[2])];
  }
  \<close>
\<close>

definition sigmoid :: "real \<Rightarrow> real" where
  "sigmoid x = 1 / (1 + exp (- x))"

definition textColorFromParams :: "real list \<Rightarrow> real list" where
  "textColorFromParams p = [sigmoid (p ! 0), sigmoid (p ! 1), sigmoid (p ! 2)]"

text \<open>
  \<^verbatim>\<open>
  function lossForText(bg01, text01){
    const Lbg = relLuminance(bg01);
    const Ltx = relLuminance(text01);
    const cr = contrastRatio(Lbg, Ltx);
    const targetContrast = 6.0;
    const contrastLoss = Math.pow(Math.max(0, targetContrast - cr), 2);
    const [h,s,v] = rgbToHsv(bg01);
    const targetH = (h + 0.5) % 1;
    const targetS = clamp01(Math.max(0.55, s));
    const targetV = (Lbg > 0.5) ? 0.15 : 0.95;
    const targetRgb = hsvToRgb([targetH, targetS, targetV]);
    const styleWeight = 0.18;
    const styleLoss =
      (text01[0]-targetRgb[0])**2 + (text01[1]-targetRgb[1])**2 + (text01[2]-targetRgb[2])**2;
    const reg = 0.0015 * (text01[0]**2 + text01[1]**2 + text01[2]**2);
    return contrastLoss + styleWeight * styleLoss + reg;
  }
  \<close>
  Both conversions return a value for every background of three channels (lemmas
  \<open>rgbToHsv_defined\<close> and \<open>lossForText_target_defined\<close> below), which \<open>the\<close> reads.
\<close>

definition lossForText :: "real list \<Rightarrow> real list \<Rightarrow> real" where
  "lossForText bg01 text01 =
     (let Lbg = relLuminance bg01;
          Ltx = relLuminance text01;
          cr = contrastRatio Lbg Ltx;
          targetContrast = 6.0;
          contrastLoss = (max 0 (targetContrast - cr)) ^ 2;
          hsv = the (rgbToHsv bg01);
          h = hsv ! 0;
          s = hsv ! 1;
          targetH = js_rem (h + 0.5) 1;
          targetS = clamp01 (max 0.55 s);
          targetV = (if Lbg > 0.5 then 0.15 else 0.95);
          targetRgb = the (hsvToRgb [targetH, targetS, targetV]);
          styleWeight = 0.18;
          styleLoss = (text01 ! 0 - targetRgb ! 0) ^ 2
                    + (text01 ! 1 - targetRgb ! 1) ^ 2
                    + (text01 ! 2 - targetRgb ! 2) ^ 2;
          reg = 0.0015 * ((text01 ! 0) ^ 2 + (text01 ! 1) ^ 2 + (text01 ! 2) ^ 2)
      in contrastLoss + styleWeight * styleLoss + reg)"

text \<open>
  \<^verbatim>\<open>
  function lossForHoverTheta(base01, theta){
    const hover01 = hoverFromBase(base01, theta);
    const diff = (hover01[0]-base01[0])**2 + (hover01[1]-base01[1])**2
               + (hover01[2]-base01[2])**2;
    const targetDiff = 0.06;
    const diffLoss = Math.pow(diff - targetDiff, 2);
    const Lb = relLuminance(base01);
    const Lh = relLuminance(hover01);
    const lumDiff = Math.abs(Lh - Lb);
    const targetLum = 0.25;
    const lumLoss = Math.pow(lumDiff - targetLum, 2);
    const extremeLoss =
      Math.pow(Math.max(0, 0.08 - Lh), 2) + Math.pow(Math.max(0, Lh - 0.92), 2);
    const reg = 0.002 * ( (theta[0]-0.18)**2 + (theta[1]-0.82)**2
                        + (theta[2]-0.86)**2 + (theta[3]-0.92)**2 );
    return diffLoss + 0.6 * lumLoss + 0.2 * extremeLoss + reg;
  }
  \<close>
\<close>

definition lossForHoverTheta :: "real list \<Rightarrow> real list \<Rightarrow> real" where
  "lossForHoverTheta base01 theta =
     (let hover01 = hoverFromBase base01 theta;
          diff = (hover01 ! 0 - base01 ! 0) ^ 2
               + (hover01 ! 1 - base01 ! 1) ^ 2
               + (hover01 ! 2 - base01 ! 2) ^ 2;
          targetDiff = 0.06;
          diffLoss = (diff - targetDiff) ^ 2;
          Lb = relLuminance base01;
          Lh = relLuminance hover01;
          lumDiff = \<bar>Lh - Lb\<bar>;
          targetLum = 0.25;
          lumLoss = (lumDiff - targetLum) ^ 2;
          extremeLoss = (max 0 (0.08 - Lh)) ^ 2 + (max 0 (Lh - 0.92)) ^ 2;
          reg = 0.002 * ((theta ! 0 - 0.18) ^ 2 + (theta ! 1 - 0.82) ^ 2
                       + (theta ! 2 - 0.86) ^ 2 + (theta ! 3 - 0.92) ^ 2)
      in diffLoss + 0.6 * lumLoss + 0.2 * extremeLoss + reg)"

section \<open>Numerical gradients\<close>

text \<open>
  \<^verbatim>\<open>
  function gradNumerical(bg01, params){
    const eps = 1e-3;
    const baseLoss = lossForText(bg01, textColorFromParams(params));
    const g = [0,0,0];
    for (let i=0;i<3;i++){
      const p2 = params.slice();
      p2[i] += eps;
      const l2 = lossForText(bg01, textColorFromParams(p2));
      g[i] = (l2 - baseLoss) / eps;
    }
    return { baseLoss, g };
  }
  \<close>
  The loop is a recursion on \<open>i\<close> that carries the array \<open>g\<close>; the returned object
  \<^verbatim>\<open>{ baseLoss, g }\<close> is the pair \<open>(baseLoss, g)\<close>.  The parameter vector has three
  entries (four for the policy below), so that \<^verbatim>\<open>p2[i] += eps\<close> updates an entry that
  exists.
\<close>

definition eps :: real where
  "eps = 1 / 1000"

function gradNumerical_loop ::
  "real list \<Rightarrow> real list \<Rightarrow> real \<Rightarrow> nat \<Rightarrow> real list \<Rightarrow> real list" where
  "gradNumerical_loop bg01 params baseLoss i g =
     (if i < 3 then
        (let p2 = params[i := params ! i + eps];
             l2 = lossForText bg01 (textColorFromParams p2)
         in gradNumerical_loop bg01 params baseLoss (i + 1) (g[i := (l2 - baseLoss) / eps]))
      else g)"
  by pat_completeness auto
termination
  by (relation "measure (\<lambda>(bg01, params, baseLoss, i, g). 3 - i)") auto

definition gradNumerical :: "real list \<Rightarrow> real list \<Rightarrow> real \<times> real list" where
  "gradNumerical bg01 params =
     (let baseLoss = lossForText bg01 (textColorFromParams params)
      in (baseLoss, gradNumerical_loop bg01 params baseLoss 0 [0, 0, 0]))"

text \<open>
  \<^verbatim>\<open>
  function gradThetaNumerical(base01, theta){
    const eps = 1e-3;
    const baseLoss = lossForHoverTheta(base01, theta);
    const g = [0,0,0,0];
    for (let i=0;i<4;i++){
      const t2 = theta.slice();
      t2[i] += eps;
      const l2 = lossForHoverTheta(base01, t2);
      g[i] = (l2 - baseLoss) / eps;
    }
    return { baseLoss, g };
  }
  \<close>
\<close>

function gradThetaNumerical_loop ::
  "real list \<Rightarrow> real list \<Rightarrow> real \<Rightarrow> nat \<Rightarrow> real list \<Rightarrow> real list" where
  "gradThetaNumerical_loop base01 theta baseLoss i g =
     (if i < 4 then
        (let t2 = theta[i := theta ! i + eps];
             l2 = lossForHoverTheta base01 t2
         in gradThetaNumerical_loop base01 theta baseLoss (i + 1)
              (g[i := (l2 - baseLoss) / eps]))
      else g)"
  by pat_completeness auto
termination
  by (relation "measure (\<lambda>(base01, theta, baseLoss, i, g). 4 - i)") auto

definition gradThetaNumerical :: "real list \<Rightarrow> real list \<Rightarrow> real \<times> real list" where
  "gradThetaNumerical base01 theta =
     (let baseLoss = lossForHoverTheta base01 theta
      in (baseLoss, gradThetaNumerical_loop base01 theta baseLoss 0 [0, 0, 0, 0]))"

section \<open>The optimisers\<close>

text \<open>
  \<^verbatim>\<open>
  function optimizeText(bg01, { steps = 160, lr = 0.35, initParams = [0,0,0] } = {}){
    let p = initParams.slice();
    for (let s=0; s<steps; s++){
      const { g } = gradNumerical(bg01, p);
      p = p.map((v, i) => v - lr * g[i]);
      if (s === 60) lr *= 0.6;
      if (s === 110) lr *= 0.7;
    }
    return { params: p, color01: textColorFromParams(p),
             loss: lossForText(bg01, textColorFromParams(p)) };
  }
  \<close>
  One iteration of the loop body maps the state \<open>(lr, p)\<close> at counter \<open>s\<close> to the next
  state; the loop runs it for \<open>s = 0, ..., steps - 1\<close>.  The options are explicit
  arguments, the callers pass the defaults.
\<close>

definition textIter :: "real list \<Rightarrow> nat \<Rightarrow> real \<times> real list \<Rightarrow> real \<times> real list" where
  "textIter bg01 s st =
     (case st of
        (lr, p) \<Rightarrow>
          (let g = snd (gradNumerical bg01 p);
               p1 = map (\<lambda>i. p ! i - lr * g ! i) [0..<length p];
               lr1 = (if s = 60 then lr * 0.6 else lr);
               lr2 = (if s = 110 then lr1 * 0.7 else lr1)
           in (lr2, p1)))"

function optimizeText_loop ::
  "real list \<Rightarrow> nat \<Rightarrow> nat \<Rightarrow> real \<times> real list \<Rightarrow> real \<times> real list" where
  "optimizeText_loop bg01 steps s st =
     (if s < steps then optimizeText_loop bg01 steps (s + 1) (textIter bg01 s st) else st)"
  by pat_completeness auto
termination
  by (relation "measure (\<lambda>(bg01, steps, s, st). steps - s)") auto

record text_result =
  tr_params :: "real list"
  tr_color01 :: "real list"
  tr_loss :: real

definition optimizeText :: "real list \<Rightarrow> nat \<Rightarrow> real \<Rightarrow> real list \<Rightarrow> text_result" where
  "optimizeText bg01 steps lr initParams =
     (let p = snd (optimizeText_loop bg01 steps 0 (lr, initParams))
      in \<lparr> tr_params = p,
           tr_color01 = textColorFromParams p,
           tr_loss = lossForText bg01 (textColorFromParams p) \<rparr>)"

text \<open>
  \<^verbatim>\<open>
  function optimizeHoverTheta(base01, { steps = 900, lr = 1.4,
                                        initTheta = [0.18, 0.82, 0.86, 0.92] } = {}){
    let theta = initTheta.slice();
    for (let s=0; s<steps; s++){
      const { g } = gradThetaNumerical(base01, theta);
      theta = theta.map((v, i) => v - lr * g[i]);
      // constrain
      theta[0] = Math.max(0.35, clamp01(theta[0]));
      theta[1] = clamp01(Math.max(0.35, theta[1]));
      theta[2] = clamp01(Math.max(0.35, theta[2]));
      theta[3] = clamp01(Math.max(0.35, theta[3]));
      if (s === 60) lr *= 0.6;
      if (s === 110) lr *= 0.7;
    }
    return { theta, loss: lossForHoverTheta(base01, theta) };
  }
  \<close>
\<close>

definition hoverIter :: "real list \<Rightarrow> nat \<Rightarrow> real \<times> real list \<Rightarrow> real \<times> real list" where
  "hoverIter base01 s st =
     (case st of
        (lr, theta) \<Rightarrow>
          (let g = snd (gradThetaNumerical base01 theta);
               th = map (\<lambda>i. theta ! i - lr * g ! i) [0..<length theta];
               th0 = th[0 := max 0.35 (clamp01 (th ! 0))];
               th1 = th0[1 := clamp01 (max 0.35 (th0 ! 1))];
               th2 = th1[2 := clamp01 (max 0.35 (th1 ! 2))];
               th3 = th2[3 := clamp01 (max 0.35 (th2 ! 3))];
               lr1 = (if s = 60 then lr * 0.6 else lr);
               lr2 = (if s = 110 then lr1 * 0.7 else lr1)
           in (lr2, th3)))"

function optimizeHoverTheta_loop ::
  "real list \<Rightarrow> nat \<Rightarrow> nat \<Rightarrow> real \<times> real list \<Rightarrow> real \<times> real list" where
  "optimizeHoverTheta_loop base01 steps s st =
     (if s < steps then optimizeHoverTheta_loop base01 steps (s + 1) (hoverIter base01 s st)
      else st)"
  by pat_completeness auto
termination
  by (relation "measure (\<lambda>(base01, steps, s, st). steps - s)") auto

record hover_result =
  hr_theta :: "real list"
  hr_loss :: real

definition optimizeHoverTheta ::
  "real list \<Rightarrow> nat \<Rightarrow> real \<Rightarrow> real list \<Rightarrow> hover_result" where
  "optimizeHoverTheta base01 steps lr initTheta =
     (let th = snd (optimizeHoverTheta_loop base01 steps 0 (lr, initTheta))
      in \<lparr> hr_theta = th, hr_loss = lossForHoverTheta base01 th \<rparr>)"

section \<open>The pipeline\<close>

text \<open>
  \<^verbatim>\<open>
  function applyChain(baseRgb255){
    const base01 = rgb01(baseRgb255);
    const baseText = optimizeText(base01, { initParams: [0.5, 0.5, 0.5] });
    const hoverOpt = optimizeHoverTheta(base01);
    const hover01 = hoverFromBase(base01, hoverOpt.theta);
    const hoverText = optimizeText(hover01, { initParams: baseText.params });
    const pageBg01 = [ clamp01(base01[0] * 0.10), clamp01(base01[1] * 0.10),
                       clamp01(base01[2] * 0.10) ];
    return { base01, baseText, hover01, hoverText, pageBg01, hoverOpt };
  }
  \<close>
  (\<^verbatim>\<open>hover2.js\<close>).  The simple variant has no \<^verbatim>\<open>hoverOpt\<close> and derives
  \<^verbatim>\<open>hover01 = hoverFromBase(base01)\<close>.
\<close>

record palette =
  p_base01 :: "real list"
  p_baseText :: text_result
  p_hover01 :: "real list"
  p_hoverText :: text_result
  p_pageBg01 :: "real list"

record palette_ext = palette +
  p_hoverOpt :: hover_result

definition applyChain :: "real list \<Rightarrow> palette_ext" where
  "applyChain baseRgb255 =
     (let base01 = rgb01 baseRgb255;
          baseText = optimizeText base01 160 0.35 [0.5, 0.5, 0.5];
          hoverOpt = optimizeHoverTheta base01 900 1.4 [0.18, 0.82, 0.86, 0.92];
          hover01 = hoverFromBase base01 (hr_theta hoverOpt);
          hoverText = optimizeText hover01 160 0.35 (tr_params baseText);
          pageBg01 = [clamp01 (base01 ! 0 * 0.10),
                      clamp01 (base01 ! 1 * 0.10),
                      clamp01 (base01 ! 2 * 0.10)]
      in \<lparr> p_base01 = base01, p_baseText = baseText, p_hover01 = hover01,
           p_hoverText = hoverText, p_pageBg01 = pageBg01, p_hoverOpt = hoverOpt \<rparr>)"

definition applyChain_simple :: "real list \<Rightarrow> palette" where
  "applyChain_simple baseRgb255 =
     (let base01 = rgb01 baseRgb255;
          baseText = optimizeText base01 160 0.35 [0.5, 0.5, 0.5];
          hover01 = hoverFromBase_fixed base01;
          hoverText = optimizeText hover01 160 0.35 (tr_params baseText);
          pageBg01 = [clamp01 (base01 ! 0 * 0.10),
                      clamp01 (base01 ! 1 * 0.10),
                      clamp01 (base01 ! 2 * 0.10)]
      in \<lparr> p_base01 = base01, p_baseText = baseText, p_hover01 = hover01,
           p_hoverText = hoverText, p_pageBg01 = pageBg01 \<rparr>)"

section \<open>Properties of the parsers\<close>

lemma split_comma_nonempty: "split_comma s \<noteq> []"
  by (induction s) (auto split: list.splits)

lemmas parser_eval = parseRGB_def Number_def trim_def isWhite_def isDigit_def digitIn_def
  digitString_def strUnsignedDecimal_def exponentPart_def pow10_def nonDecimalRadix_def
  isNaN_def clamp255_def round_half_up_def parseRgbInput_def parseInt10_def Let_def

lemma split_comma_append_comma:
  "split_comma (xs @ CHR '','' # ys) = split_comma xs @ split_comma ys"
proof (induction xs)
  case Nil
  show ?case by simp
next
  case (Cons c xs)
  obtain t ts where "split_comma xs = t # ts"
    using split_comma_nonempty [of xs] by (cases "split_comma xs") auto
  with Cons show ?case by simp
qed

lemma clamp255_range:
  assumes "x \<noteq> NaN"
  shows "\<exists>k. clamp255 x = Fin (of_int k) \<and> 0 \<le> k \<and> k \<le> 255"
proof (cases x)
  case NaN
  with assms show ?thesis by simp
next
  case NegInf
  then have "clamp255 x = Fin (of_int 0)" by (simp add: clamp255_def round_half_up_def)
  then show ?thesis by (intro exI [of _ 0]) simp
next
  case PosInf
  then have "clamp255 x = Fin (of_int 255)" by (simp add: clamp255_def round_half_up_def)
  then show ?thesis by (intro exI [of _ 255]) simp
next
  case (Fin v)
  let ?m = "max 0 (min 255 v)"
  have m: "0 \<le> ?m" "?m \<le> 255" by auto
  have eq: "clamp255 x = Fin (of_int \<lfloor>?m + 1 / 2\<rfloor>)"
    using Fin by (simp add: clamp255_def round_half_up_def)
  have "0 \<le> \<lfloor>?m + 1 / 2\<rfloor>" using m by linarith
  moreover have "\<lfloor>?m + 1 / 2\<rfloor> \<le> 255" using m by linarith
  ultimately show ?thesis using eq by blast
qed

lemma parseRGB_of_tokens:
  assumes "filter (\<lambda>s. s \<noteq> []) (map trim (split_comma text)) = [a, b, c]"
    and "\<not> isNaN (Number a)" "\<not> isNaN (Number b)" "\<not> isNaN (Number c)"
  shows "parseRGB text = Some [clamp255 (Number a), clamp255 (Number b), clamp255 (Number c)]"
  using assms by (simp add: parseRGB_def Let_def)

lemma length3E:
  assumes "length xs = 3"
  obtains a b c where "xs = [a, b, c]"
proof -
  from assms obtain a ys where 1: "xs = a # ys" "length ys = 2" by (cases xs) auto
  then obtain b zs where 2: "ys = b # zs" "length zs = 1" by (cases ys) auto
  then obtain c where "zs = [c]" by (cases zs) auto
  with 1 2 that show ?thesis by simp
qed

lemma parseRGB_None_iff:
  "(parseRGB text = None) =
     (\<not> (\<exists>a b c. filter (\<lambda>s. s \<noteq> []) (map trim (split_comma text)) = [a, b, c]
        \<and> \<not> isNaN (Number a) \<and> \<not> isNaN (Number b) \<and> \<not> isNaN (Number c)))"
proof -
  define parts where "parts = filter (\<lambda>s. s \<noteq> []) (map trim (split_comma text))"
  have p: "parseRGB text =
      (if length parts \<noteq> 3 then None
       else if list_ex isNaN (map Number parts) then None
       else Some (map clamp255 (map Number parts)))"
    unfolding parseRGB_def parts_def Let_def by (rule refl)
  have "(parseRGB text = None) =
     (\<not> (\<exists>a b c. parts = [a, b, c]
        \<and> \<not> isNaN (Number a) \<and> \<not> isNaN (Number b) \<and> \<not> isNaN (Number c)))"
  proof (cases "length parts = 3")
    case True
    then obtain a b c where "parts = [a, b, c]" by (rule length3E)
    then show ?thesis by (simp add: p)
  next
    case False
    then have "parseRGB text = None" by (simp add: p)
    moreover have "\<not> (\<exists>a b c. parts = [a, b, c]
        \<and> \<not> isNaN (Number a) \<and> \<not> isNaN (Number b) \<and> \<not> isNaN (Number c))"
      using False by auto
    ultimately show ?thesis by simp
  qed
  then show ?thesis unfolding parts_def .
qed

text \<open>
  Claim C4.  \<open>parseRGB\<close> is a total function whose failure is the value \<open>None\<close> (the
  \<^verbatim>\<open>null\<close> result; no path of the source throws).  The strings \<^verbatim>\<open>"1,2"\<close>,
  \<^verbatim>\<open>"a,b,c"\<close>, \<^verbatim>\<open>""\<close> and \<^verbatim>\<open>"1,2,3,4"\<close> give \<open>None\<close>, \<^verbatim>\<open>"10, 20, 30"\<close> gives
  \<open>[10, 20, 30]\<close>, and for every input the result is \<open>None\<close> exactly when the non-blank
  comma-separated tokens are not three tokens that \<open>Number\<close> reads as numbers.
\<close>

theorem parseRGB_invalid_signal:
  "parseRGB ''1,2'' = None \<and> parseRGB ''a,b,c'' = None \<and> parseRGB [] = None
   \<and> parseRGB ''1,2,3,4'' = None
   \<and> parseRGB ''10, 20, 30'' = Some [Fin 10, Fin 20, Fin 30]
   \<and> (parseRGB text = None) =
       (\<not> (\<exists>a b c. filter (\<lambda>s. s \<noteq> []) (map trim (split_comma text)) = [a, b, c]
          \<and> \<not> isNaN (Number a) \<and> \<not> isNaN (Number b) \<and> \<not> isNaN (Number c)))"
proof -
  have "parseRGB ''1,2'' = None" by (simp add: parser_eval)
  moreover have "parseRGB ''a,b,c'' = None" by (simp add: parser_eval)
  moreover have "parseRGB [] = None" by (simp add: parser_eval)
  moreover have "parseRGB ''1,2,3,4'' = None" by (simp add: parser_eval)
  moreover have "parseRGB ''10, 20, 30'' = Some [Fin 10, Fin 20, Fin 30]"
    by (simp add: parser_eval)
  ultimately show ?thesis using parseRGB_None_iff [of "text"] by blast
qed

lemma parseRGB_double_comma:
  "parseRGB (xs @ '',,'' @ ys) = parseRGB (xs @ '','' @ ys)"
proof -
  have "split_comma (xs @ '',,'' @ ys) = split_comma xs @ [] # split_comma ys"
    using split_comma_append_comma [of xs "CHR '','' # ys"] by simp
  moreover have "split_comma (xs @ '','' @ ys) = split_comma xs @ split_comma ys"
    using split_comma_append_comma [of xs ys] by simp
  ultimately show ?thesis by (simp add: parseRGB_def trim_def)
qed

lemma parseRGB_trailing_comma: "parseRGB (xs @ '','') = parseRGB xs"
  using split_comma_append_comma [of xs "[]"] by (simp add: parseRGB_def trim_def)

lemma parseRGB_leading_comma: "parseRGB ('','' @ xs) = parseRGB xs"
  by (simp add: parseRGB_def trim_def)

text \<open>
  Claim C10.  Empty tokens are dropped before the arity check: doubling a comma, and a
  trailing or a leading comma, do not change the result of \<open>parseRGB\<close>;
  \<^verbatim>\<open>"10,,20,30"\<close> and \<^verbatim>\<open>"10,20,30,"\<close> parse to \<open>[10, 20, 30]\<close>; and whenever the
  non-empty trimmed tokens of the input are exactly three numeric tokens, parsing
  succeeds with the three clamped channels, integers in \<open>[0, 255]\<close>.
\<close>

theorem parseRGB_skips_empty_tokens:
  "parseRGB (xs @ '',,'' @ ys) = parseRGB (xs @ '','' @ ys)
   \<and> parseRGB (xs @ '','') = parseRGB xs
   \<and> parseRGB ('','' @ xs) = parseRGB xs
   \<and> parseRGB ''10,,20,30'' = Some [Fin 10, Fin 20, Fin 30]
   \<and> parseRGB ''10,20,30,'' = Some [Fin 10, Fin 20, Fin 30]
   \<and> (filter (\<lambda>s. s \<noteq> []) (map trim (split_comma text)) = [a, b, c]
        \<and> \<not> isNaN (Number a) \<and> \<not> isNaN (Number b) \<and> \<not> isNaN (Number c)
      \<longrightarrow> parseRGB text = Some [clamp255 (Number a), clamp255 (Number b), clamp255 (Number c)]
          \<and> (\<exists>i j k. parseRGB text = Some [Fin (of_int i), Fin (of_int j), Fin (of_int k)]
                \<and> 0 \<le> i \<and> i \<le> 255 \<and> 0 \<le> j \<and> j \<le> 255 \<and> 0 \<le> k \<and> k \<le> 255))"
proof -
  have ex1: "parseRGB ''10,,20,30'' = Some [Fin 10, Fin 20, Fin 30]"
    by (simp add: parser_eval)
  have ex2: "parseRGB ''10,20,30,'' = Some [Fin 10, Fin 20, Fin 30]"
    by (simp add: parser_eval)
  have gen: "parseRGB text = Some [clamp255 (Number a), clamp255 (Number b), clamp255 (Number c)]
          \<and> (\<exists>i j k. parseRGB text = Some [Fin (of_int i), Fin (of_int j), Fin (of_int k)]
                \<and> 0 \<le> i \<and> i \<le> 255 \<and> 0 \<le> j \<and> j \<le> 255 \<and> 0 \<le> k \<and> k \<le> 255)"
    if toks: "filter (\<lambda>s. s \<noteq> []) (map trim (split_comma text)) = [a, b, c]"
      and num: "\<not> isNaN (Number a)" "\<not> isNaN (Number b)" "\<not> isNaN (Number c)"
  proof -
    have p: "parseRGB text = Some [clamp255 (Number a), clamp255 (Number b), clamp255 (Number c)]"
      using toks num by (rule parseRGB_of_tokens)
    obtain i where i: "clamp255 (Number a) = Fin (of_int i)" "0 \<le> i" "i \<le> 255"
      using clamp255_range [of "Number a"] num(1) by (auto simp: isNaN_def)
    obtain j where j: "clamp255 (Number b) = Fin (of_int j)" "0 \<le> j" "j \<le> 255"
      using clamp255_range [of "Number b"] num(2) by (auto simp: isNaN_def)
    obtain k where k: "clamp255 (Number c) = Fin (of_int k)" "0 \<le> k" "k \<le> 255"
      using clamp255_range [of "Number c"] num(3) by (auto simp: isNaN_def)
    show ?thesis using p i j k by auto
  qed
  show ?thesis
    using parseRGB_double_comma [of xs ys] parseRGB_trailing_comma [of xs]
      parseRGB_leading_comma [of xs] ex1 ex2 gen by blast
qed

text \<open>The theorem at concrete inputs: \<^verbatim>\<open>",10,,20,30,"\<close> and \<^verbatim>\<open>"7,, 300 ,-4,"\<close>.\<close>

theorem parseRGB_skips_empty_tokens_witness:
  "parseRGB ('',10'' @ '',,'' @ ''20,30,'') = parseRGB ('',10'' @ '','' @ ''20,30,'')
   \<and> parseRGB ('',10'' @ '','') = parseRGB '',10''
   \<and> filter (\<lambda>s. s \<noteq> []) (map trim (split_comma ''7,, 300 ,-4,'')) = [''7'', ''300'', ''-4'']
   \<and> \<not> isNaN (Number ''7'') \<and> \<not> isNaN (Number ''300'') \<and> \<not> isNaN (Number ''-4'')
   \<and> parseRGB ''7,, 300 ,-4,'' = Some [Fin 7, Fin 255, Fin 0]"
proof -
  have toks: "filter (\<lambda>s. s \<noteq> []) (map trim (split_comma ''7,, 300 ,-4,'')) = [''7'', ''300'', ''-4'']"
    by (simp add: parser_eval)
  have num: "\<not> isNaN (Number ''7'')" "\<not> isNaN (Number ''300'')" "\<not> isNaN (Number ''-4'')"
    by (simp_all add: parser_eval)
  have vals: "clamp255 (Number ''7'') = Fin 7" "clamp255 (Number ''300'') = Fin 255"
    "clamp255 (Number ''-4'') = Fin 0"
    by (simp_all add: parser_eval)
  have "parseRGB ''7,, 300 ,-4,'' = Some [Fin 7, Fin 255, Fin 0]"
    using parseRGB_skips_empty_tokens [of _ _ "''7,, 300 ,-4,''" "''7''" "''300''" "''-4''"]
      toks num vals by simp
  moreover have "parseRGB ('',10'' @ '',,'' @ ''20,30,'') = parseRGB ('',10'' @ '','' @ ''20,30,'')"
    "parseRGB ('',10'' @ '','') = parseRGB '',10''"
    using parseRGB_skips_empty_tokens [of "'',10''" "''20,30,''"] by blast+
  ultimately show ?thesis using toks num by blast
qed

lemma parseRGB_three_tokens:
  assumes "split_comma text = [a, b, c]"
    and "trim a \<noteq> []" "trim b \<noteq> []" "trim c \<noteq> []"
  shows "filter (\<lambda>s. s \<noteq> []) (map trim (split_comma text)) = [trim a, trim b, trim c]"
  using assms by simp

lemma clamp255_above: "255 \<le> v \<Longrightarrow> clamp255 (Fin v) = Fin 255"
  by (simp add: clamp255_def round_half_up_def min_def max_def)

lemma clamp255_below: "v \<le> 0 \<Longrightarrow> clamp255 (Fin v) = Fin 0"
  by (simp add: clamp255_def round_half_up_def min_def max_def)

lemma parseRgbInput_out_of_range:
  assumes "split_comma text = [a, b, c]"
    and "list_ex (\<lambda>t. js_less (parseInt10 (trim t)) (Fin 0) \<or> js_less (Fin 255) (parseInt10 (trim t)))
           [a, b, c]"
  shows "parseRgbInput text = None"
  using assms by (auto simp add: parseRgbInput_def Let_def)

text \<open>
  Claim C2, as amended.  A numeric token is a token that is not blank and that \<open>Number\<close>
  reads as a number.  When the comma-separated tokens of the input are exactly three
  numeric tokens, \<open>parseRGB\<close> succeeds, each channel is \<open>clamp255\<close> of the token's
  value, an integer in \<open>[0, 255]\<close>; a value of 255 or more becomes 255 and a value of 0
  or less becomes 0.  The parser of \<^verbatim>\<open>hover.js\<close>, \<open>parseRgbInput\<close>, does not clamp: with
  three tokens of which one reads (by \<^verbatim>\<open>parseInt\<close>) as a value below 0 or above 255, it
  returns the invalid result.
\<close>

theorem parseRGB_clamps_parseRgbInput_rejects:
  "(split_comma text = [a, b, c] \<and> trim a \<noteq> [] \<and> trim b \<noteq> [] \<and> trim c \<noteq> []
      \<and> \<not> isNaN (Number (trim a)) \<and> \<not> isNaN (Number (trim b)) \<and> \<not> isNaN (Number (trim c))
    \<longrightarrow> parseRGB text = Some [clamp255 (Number (trim a)), clamp255 (Number (trim b)),
                               clamp255 (Number (trim c))]
        \<and> (\<exists>i j k. parseRGB text = Some [Fin (of_int i), Fin (of_int j), Fin (of_int k)]
              \<and> 0 \<le> i \<and> i \<le> 255 \<and> 0 \<le> j \<and> j \<le> 255 \<and> 0 \<le> k \<and> k \<le> 255))
   \<and> (255 \<le> v \<longrightarrow> clamp255 (Fin v) = Fin 255)
   \<and> (v \<le> 0 \<longrightarrow> clamp255 (Fin v) = Fin 0)
   \<and> (split_comma text = [a, b, c]
        \<and> list_ex (\<lambda>t. js_less (parseInt10 (trim t)) (Fin 0)
                        \<or> js_less (Fin 255) (parseInt10 (trim t))) [a, b, c]
      \<longrightarrow> parseRgbInput text = None)"
proof -
  have gen: "parseRGB text = Some [clamp255 (Number (trim a)), clamp255 (Number (trim b)),
                               clamp255 (Number (trim c))]
        \<and> (\<exists>i j k. parseRGB text = Some [Fin (of_int i), Fin (of_int j), Fin (of_int k)]
              \<and> 0 \<le> i \<and> i \<le> 255 \<and> 0 \<le> j \<and> j \<le> 255 \<and> 0 \<le> k \<and> k \<le> 255)"
    if sp: "split_comma text = [a, b, c]"
      and ne: "trim a \<noteq> []" "trim b \<noteq> []" "trim c \<noteq> []"
      and num: "\<not> isNaN (Number (trim a))" "\<not> isNaN (Number (trim b))"
        "\<not> isNaN (Number (trim c))"
  proof -
    have toks: "filter (\<lambda>s. s \<noteq> []) (map trim (split_comma text)) = [trim a, trim b, trim c]"
      using sp ne by (rule parseRGB_three_tokens)
    have p: "parseRGB text = Some [clamp255 (Number (trim a)), clamp255 (Number (trim b)),
                               clamp255 (Number (trim c))]"
      using toks num by (rule parseRGB_of_tokens)
    obtain i where i: "clamp255 (Number (trim a)) = Fin (of_int i)" "0 \<le> i" "i \<le> 255"
      using clamp255_range [of "Number (trim a)"] num(1) by (auto simp: isNaN_def)
    obtain j where j: "clamp255 (Number (trim b)) = Fin (of_int j)" "0 \<le> j" "j \<le> 255"
      using clamp255_range [of "Number (trim b)"] num(2) by (auto simp: isNaN_def)
    obtain k where k: "clamp255 (Number (trim c)) = Fin (of_int k)" "0 \<le> k" "k \<le> 255"
      using clamp255_range [of "Number (trim c)"] num(3) by (auto simp: isNaN_def)
    show ?thesis using p i j k by auto
  qed
  show ?thesis
    using gen clamp255_above [of v] clamp255_below [of v]
      parseRgbInput_out_of_range [of "text" a b c]
    by blast
qed

text \<open>The theorem at the input \<^verbatim>\<open>"300, -7,12.5"\<close>.\<close>

theorem parseRGB_clamps_parseRgbInput_rejects_witness:
  "split_comma ''300, -7,12.5'' = [''300'', '' -7'', ''12.5'']
   \<and> parseRGB ''300, -7,12.5'' = Some [Fin 255, Fin 0, Fin 13]
   \<and> clamp255 (Fin 300) = Fin 255 \<and> clamp255 (Fin (- 7)) = Fin 0
   \<and> parseRgbInput ''300, -7,12.5'' = None"
proof -
  have sp: "split_comma ''300, -7,12.5'' = [''300'', '' -7'', ''12.5'']"
    by simp
  have ne: "trim ''300'' \<noteq> []" "trim '' -7'' \<noteq> []" "trim ''12.5'' \<noteq> []"
    by (simp_all add: parser_eval)
  have num: "\<not> isNaN (Number (trim ''300''))" "\<not> isNaN (Number (trim '' -7''))"
    "\<not> isNaN (Number (trim ''12.5''))"
    by (simp_all add: parser_eval)
  have vals: "clamp255 (Number (trim ''300'')) = Fin 255"
    "clamp255 (Number (trim '' -7'')) = Fin 0"
    "clamp255 (Number (trim ''12.5'')) = Fin 13"
    by (simp_all add: parser_eval)
  have out: "list_ex (\<lambda>t. js_less (parseInt10 (trim t)) (Fin 0)
                        \<or> js_less (Fin 255) (parseInt10 (trim t))) [''300'', '' -7'', ''12.5'']"
    by (simp add: parser_eval)
  note inst = parseRGB_clamps_parseRgbInput_rejects
      [of "''300, -7,12.5''" "''300''" "'' -7''" "''12.5''" 300]
  have "parseRGB ''300, -7,12.5'' = Some [clamp255 (Number (trim ''300'')),
      clamp255 (Number (trim '' -7'')), clamp255 (Number (trim ''12.5''))]"
    using inst sp ne num by blast
  then have "parseRGB ''300, -7,12.5'' = Some [Fin 255, Fin 0, Fin 13]"
    by (simp only: vals)
  moreover have "parseRgbInput ''300, -7,12.5'' = None"
    using inst sp out by blast
  moreover have "clamp255 (Fin 300) = Fin 255"
    using parseRGB_clamps_parseRgbInput_rejects [of _ _ _ _ 300] by simp
  moreover have "clamp255 (Fin (- 7)) = Fin 0"
    using parseRGB_clamps_parseRgbInput_rejects [of _ _ _ _ "- 7"] by simp
  ultimately show ?thesis using sp by blast
qed

text \<open>
  The claim as stated (every parser succeeds on three numeric tokens) fails for
  \<open>parseRgbInput\<close> at \<^verbatim>\<open>"300,0,0"\<close>: three numeric tokens, and the invalid result.
\<close>

theorem parseRgbInput_rejects_out_of_range_channel:
  "split_comma ''300,0,0'' = [''300'', ''0'', ''0'']
   \<and> Number ''300'' = Fin 300 \<and> Number ''0'' = Fin 0
   \<and> parseRgbInput ''300,0,0'' = None
   \<and> parseRGB ''300,0,0'' = Some [Fin 255, Fin 0, Fin 0]"
  by (simp add: parser_eval)

section \<open>Properties of the colour utilities\<close>

lemma clamp255_near_integer:
  fixes a :: int
  assumes "0 \<le> a" "a \<le> 255" "\<bar>x - of_int a\<bar> < 1 / 2"
  shows "clamp255 (Fin x) = Fin (of_int a)"
proof -
  let ?m = "max 0 (min 255 x)"
  have ra: "0 \<le> (of_int a :: real)" "(of_int a :: real) \<le> 255" using assms(1,2) by simp_all
  have lo: "of_int a \<le> ?m + 1 / 2" using ra assms(3) by linarith
  have hi: "?m + 1 / 2 < of_int a + 1" using ra assms(3) by linarith
  have "\<lfloor>?m + 1 / 2\<rfloor> = a" using lo hi by linarith
  then show ?thesis by (simp add: clamp255_def round_half_up_def)
qed

text \<open>
  Claim C7.  For integer channels \<open>a\<close>, \<open>b\<close>, \<open>c\<close> in \<open>[0, 255]\<close>, converting to the unit
  range with \<open>rgb01\<close>, scaling by 255 and applying \<open>rgb255\<close> returns the triple exactly.
  The rounding in \<open>clamp255\<close> absorbs any error below one half, so the rounding of the
  double-precision quotient and product cannot change the result either.
\<close>

theorem rgb255_rgb01_roundtrip:
  fixes a b c :: int
  assumes "0 \<le> a" "a \<le> 255" "0 \<le> b" "b \<le> 255" "0 \<le> c" "c \<le> 255"
  shows "rgb255 (map (\<lambda>v. v * 255) (rgb01 [of_int a, of_int b, of_int c]))
           = [Fin (of_int a), Fin (of_int b), Fin (of_int c)]
         \<and> (\<forall>x. \<bar>x - of_int a\<bar> < 1 / 2 \<longrightarrow> clamp255 (Fin x) = Fin (of_int a))"
proof -
  have "clamp255 (Fin (of_int k)) = Fin (of_int k)" if "0 \<le> k" "k \<le> 255" for k :: int
    using that clamp255_near_integer [of k "of_int k"] by simp
  then have "rgb255 (map (\<lambda>v. v * 255) (rgb01 [of_int a, of_int b, of_int c]))
           = [Fin (of_int a), Fin (of_int b), Fin (of_int c)]"
    using assms by simp
  then show ?thesis using clamp255_near_integer [of a] assms(1,2) by blast
qed

text \<open>The theorem at the colour \<open>[34, 139, 230]\<close>.\<close>

theorem rgb255_rgb01_roundtrip_witness:
  "rgb255 (map (\<lambda>v. v * 255) (rgb01 [34, 139, 230])) = [Fin 34, Fin 139, Fin 230]
   \<and> rgb01 [34, 139, 230] = [34 / 255, 139 / 255, 230 / 255]
   \<and> clamp255 (Fin (34 + 1 / 4)) = Fin 34"
proof -
  have "rgb255 (map (\<lambda>v. v * 255) (rgb01 [34, 139, 230])) = [Fin 34, Fin 139, Fin 230]"
    "clamp255 (Fin (34 + 1 / 4)) = Fin 34"
    using rgb255_rgb01_roundtrip [of 34 139 230] by simp_all
  then show ?thesis by simp
qed

section \<open>Properties of the hover derivation\<close>

lemma clamp01_range: "0 \<le> clamp01 x \<and> clamp01 x \<le> 1"
  by (simp add: clamp01_def)

lemma mix_in_unit:
  fixes t r u :: real
  assumes "0 \<le> t" "t \<le> 1" "0 \<le> r" "r \<le> 1" "0 \<le> u" "u \<le> 1"
  shows "0 \<le> (1 - t) * r + t * u \<and> (1 - t) * r + t * u \<le> 1"
proof
  show "0 \<le> (1 - t) * r + t * u" using assms by simp
  have "(1 - t) * r \<le> (1 - t) * 1" using assms by (intro mult_left_mono) auto
  moreover have "t * u \<le> t * 1" using assms by (intro mult_left_mono) auto
  ultimately show "(1 - t) * r + t * u \<le> 1" by simp
qed

lemma hoverFromBase_channels:
  "hoverFromBase [r, g, b] [t, fr, fg, fb] =
     [(1 - clamp01 t) * r + clamp01 t * clamp01 (r * clamp01 fr),
      (1 - clamp01 t) * g + clamp01 t * clamp01 (g * clamp01 fg),
      (1 - clamp01 t) * b + clamp01 t * clamp01 (b * clamp01 fb)]"
  by (simp add: hoverFromBase_def Let_def)

lemma hoverFromBase_unit:
  assumes "0 \<le> r" "r \<le> 1" "0 \<le> g" "g \<le> 1" "0 \<le> b" "b \<le> 1"
    and "c \<in> set (hoverFromBase [r, g, b] [t, fr, fg, fb])"
  shows "0 \<le> c \<and> c \<le> 1"
proof -
  from assms(7) consider
      "c = (1 - clamp01 t) * r + clamp01 t * clamp01 (r * clamp01 fr)"
    | "c = (1 - clamp01 t) * g + clamp01 t * clamp01 (g * clamp01 fg)"
    | "c = (1 - clamp01 t) * b + clamp01 t * clamp01 (b * clamp01 fb)"
    unfolding hoverFromBase_channels by auto
  then show ?thesis
  proof cases
    case 1
    then show ?thesis using mix_in_unit assms(1,2) clamp01_range by simp
  next
    case 2
    then show ?thesis using mix_in_unit assms(3,4) clamp01_range by simp
  next
    case 3
    then show ?thesis using mix_in_unit assms(5,6) clamp01_range by simp
  qed
qed

lemma clamp01_idem: "clamp01 (clamp01 x) = clamp01 x"
  by (simp add: clamp01_def)

text \<open>
  Claim C3, as amended.  \<open>hoverFromBase\<close> clamps each of the four policy entries into
  \<open>[0, 1]\<close> before it uses them (the result is that of the clamped policy), and the
  darkened target as well; so for every policy vector of four reals and every base
  colour in \<open>[0, 1]\<^sup>3\<close> each output channel lies in \<open>[0, 1]\<close>.
\<close>

theorem hoverFromBase_output_in_unit_range:
  assumes "0 \<le> r" "r \<le> 1" "0 \<le> g" "g \<le> 1" "0 \<le> b" "b \<le> 1"
  shows "(\<forall>c \<in> set (hoverFromBase [r, g, b] [t, fr, fg, fb]). 0 \<le> c \<and> c \<le> 1)
         \<and> hoverFromBase [r, g, b] [t, fr, fg, fb]
             = hoverFromBase [r, g, b] (map clamp01 [t, fr, fg, fb])"
proof -
  have "hoverFromBase [r, g, b] [t, fr, fg, fb]
             = hoverFromBase [r, g, b] (map clamp01 [t, fr, fg, fb])"
    unfolding list.map hoverFromBase_channels clamp01_idem by (rule refl)
  then show ?thesis using hoverFromBase_unit [OF assms] by blast
qed

text \<open>The theorem at the base \<open>[1/2, 1, 0]\<close> and the out-of-range policy
  \<open>[3, -2, 5, 7]\<close>.\<close>

theorem hoverFromBase_output_in_unit_range_witness:
  "hoverFromBase [1 / 2, 1, 0] [3, - 2, 5, 7] = [0, 1, 0]
   \<and> list_all (\<lambda>c. 0 \<le> c \<and> c \<le> 1) (hoverFromBase [1 / 2, 1, 0] [3, - 2, 5, 7])
   \<and> hoverFromBase [1 / 2, 1, 0] [3, - 2, 5, 7] = hoverFromBase [1 / 2, 1, 0] [1, 0, 1, 1]"
proof -
  have "hoverFromBase [1 / 2, 1, 0] [3, - 2, 5, 7] = [0, 1, 0]"
    by (simp add: hoverFromBase_channels clamp01_def)
  moreover have "(\<forall>c \<in> set (hoverFromBase [1 / 2, 1, 0] [3, - 2, 5, 7]). 0 \<le> c \<and> c \<le> 1)
     \<and> hoverFromBase [1 / 2, 1, 0] [3, - 2, 5, 7]
         = hoverFromBase [1 / 2, 1, 0] (map clamp01 [3, - 2, 5, 7])"
    using hoverFromBase_output_in_unit_range [of "1 / 2" 1 0 3 "- 2" 5 7] by simp
  moreover have "map clamp01 [3, - 2, 5, 7] = [1, 0, 1, 1]"
    by (simp add: clamp01_def)
  ultimately show ?thesis by (simp add: list_all_iff)
qed

text \<open>
  The claim as stated asks for a policy vector and a base colour in \<open>[0, 1]\<^sup>3\<close> with an
  output channel outside \<open>[0, 1]\<close>: there is none.
\<close>

theorem hoverFromBase_never_out_of_range:
  "\<not> (\<exists>t fr fg fb r g b.
        0 \<le> r \<and> r \<le> 1 \<and> 0 \<le> g \<and> g \<le> 1 \<and> 0 \<le> b \<and> b \<le> 1
        \<and> (\<exists>c \<in> set (hoverFromBase [r, g, b] [t, fr, fg, fb]). c < 0 \<or> 1 < c))"
proof
  assume "\<exists>t fr fg fb r g b.
        0 \<le> r \<and> r \<le> 1 \<and> 0 \<le> g \<and> g \<le> 1 \<and> 0 \<le> b \<and> b \<le> 1
        \<and> (\<exists>c \<in> set (hoverFromBase [r, g, b] [t, fr, fg, fb]). c < 0 \<or> 1 < c)"
  then obtain t fr fg fb r g b c where
    rng: "0 \<le> r" "r \<le> 1" "0 \<le> g" "g \<le> 1" "0 \<le> b" "b \<le> 1"
    and c: "c \<in> set (hoverFromBase [r, g, b] [t, fr, fg, fb])" "c < 0 \<or> 1 < c"
    by blast
  from hoverFromBase_unit [OF rng c(1)] c(2) show False by simp
qed

section \<open>Properties of the HSV conversion\<close>

lemma trunc_small: "\<bar>x\<bar> < 1 \<Longrightarrow> trunc x = 0"
  unfolding trunc_def by (auto simp: floor_eq_iff ceiling_eq_iff)

lemma js_rem_small:
  assumes "0 < y" "\<bar>x\<bar> < y"
  shows "js_rem x y = x"
proof -
  have "\<bar>x / y\<bar> < 1" using assms by simp
  then have "trunc (x / y) = 0" by (rule trunc_small)
  then show ?thesis by (simp add: js_rem_def)
qed

lemma js_rem_1_range:
  assumes "0 \<le> x"
  shows "0 \<le> js_rem x 1 \<and> js_rem x 1 < 1"
proof -
  have "js_rem x 1 = x - of_int \<lfloor>x\<rfloor>" using assms by (simp add: js_rem_def trunc_def)
  then show ?thesis by linarith
qed

lemma ratio_bounds:
  fixes u d :: real
  assumes "0 < d" "\<bar>u\<bar> \<le> d"
  shows "- 1 \<le> u / d \<and> u / d \<le> 1"
  using assms by (simp add: field_simps abs_le_iff)

lemma rgbToHsv_gray: "rgbToHsv [x, x, x] = Some [0, 0, x]"
  by (simp add: rgbToHsv_def checked_div_def)

lemma rgbToHsv_value:
  "\<exists>h s. rgbToHsv [r, g, b] = Some [h, s, max r (max g b)] \<and> 0 \<le> h \<and> h < 1"
proof -
  define mx where "mx = max r (max g b)"
  define mn where "mn = min r (min g b)"
  define d where "d = mx - mn"
  define s where "s = (if mx = 0 then 0 else d / mx)"
  have sval: "(if mx = 0 then Some 0 else checked_div d mx) = Some s"
    by (simp add: s_def checked_div_def)
  have d0: "0 \<le> d" unfolding d_def mx_def mn_def by linarith
  have unf: "rgbToHsv [r, g, b] =
      do {
        s \<leftarrow> (if mx = 0 then Some 0 else checked_div d mx);
        h \<leftarrow> (if d \<noteq> 0 then do {
                h0 \<leftarrow> (if mx = r then
                        do { q \<leftarrow> checked_div (g - b) d; Some (js_rem q 6) }
                      else if mx = g then
                        do { q \<leftarrow> checked_div (b - r) d; Some (q + 2) }
                      else if mx = b then
                        do { q \<leftarrow> checked_div (r - g) d; Some (q + 4) }
                      else Some 0);
                h1 \<leftarrow> checked_div h0 6;
                Some (if h1 < 0 then h1 + 1 else h1)
              } else Some 0);
        Some [h, s, mx]
      }"
    unfolding rgbToHsv_def mx_def mn_def d_def Let_def by simp
  show ?thesis
  proof (cases "d = 0")
    case True
    then have "rgbToHsv [r, g, b] = Some [0, s, mx]"
      unfolding unf sval by simp
    then show ?thesis unfolding mx_def by auto
  next
    case False
    then have dpos: "0 < d" using d0 by simp
    have gb: "\<bar>g - b\<bar> \<le> d" unfolding d_def mx_def mn_def by linarith
    have br: "\<bar>b - r\<bar> \<le> d" unfolding d_def mx_def mn_def by linarith
    have rg: "\<bar>r - g\<bar> \<le> d" unfolding d_def mx_def mn_def by linarith
    consider (R) "mx = r" | (G) "mx \<noteq> r" "mx = g" | (B) "mx \<noteq> r" "mx \<noteq> g" "mx = b"
      unfolding mx_def by linarith
    then show ?thesis
    proof cases
      case R
      define q where "q = (g - b) / d"
      have qb: "- 1 \<le> q \<and> q \<le> 1" unfolding q_def using dpos gb by (rule ratio_bounds)
      then have rem: "js_rem q 6 = q" by (intro js_rem_small) auto
      define h where "h = (if q / 6 < 0 then q / 6 + 1 else q / 6)"
      have "rgbToHsv [r, g, b] = Some [h, s, mx]"
        unfolding unf sval using False R rem
        by (simp add: checked_div_def q_def h_def)
      moreover have "0 \<le> h \<and> h < 1" unfolding h_def using qb by auto
      ultimately show ?thesis unfolding mx_def by blast
    next
      case G
      define q where "q = (b - r) / d"
      have qb: "- 1 \<le> q \<and> q \<le> 1" unfolding q_def using dpos br by (rule ratio_bounds)
      define h where "h = (q + 2) / 6"
      have hb: "0 \<le> h \<and> h < 1" unfolding h_def using qb by auto
      then have "rgbToHsv [r, g, b] = Some [h, s, mx]"
        unfolding unf sval using False G
        by (simp add: checked_div_def q_def h_def)
      then show ?thesis unfolding mx_def using hb by blast
    next
      case B
      define q where "q = (r - g) / d"
      have qb: "- 1 \<le> q \<and> q \<le> 1" unfolding q_def using dpos rg by (rule ratio_bounds)
      define h where "h = (q + 4) / 6"
      have hb: "0 \<le> h \<and> h < 1" unfolding h_def using qb by auto
      then have "rgbToHsv [r, g, b] = Some [h, s, mx]"
        unfolding unf sval using False B
        by (simp add: checked_div_def q_def h_def)
      then show ?thesis unfolding mx_def using hb by blast
    qed
  qed
qed

lemma rgbToHsv_defined: "\<exists>hsv. rgbToHsv [r, g, b] = Some hsv"
  using rgbToHsv_value [of r g b] by blast

lemma hsvToRgb_defined:
  assumes "0 \<le> h" "h < 1"
  shows "\<exists>rgb. hsvToRgb [h, s, v] = Some rgb"
proof -
  define i where "i = \<lfloor>h * 6\<rfloor>"
  have i: "0 \<le> i" "i \<le> 5" unfolding i_def using assms by (simp_all add: floor_le_iff le_floor_iff)
  then have "\<bar>real_of_int i\<bar> < 6" by simp
  then have "js_rem (of_int i) 6 = of_int i" by (intro js_rem_small) auto
  then have rem: "js_rem (of_int \<lfloor>h * 6\<rfloor>) 6 = of_int i" by (simp only: i_def)
  from i have "i = 0 \<or> i = 1 \<or> i = 2 \<or> i = 3 \<or> i = 4 \<or> i = 5" by presburger
  then show ?thesis
    by (auto simp add: hsvToRgb_def Let_def rem)
qed

lemma lossForText_target_defined:
  "\<exists>hsv rgb. rgbToHsv [r, g, b] = Some hsv
      \<and> hsvToRgb [js_rem (hsv ! 0 + 0.5) 1, targetS, targetV] = Some rgb"
proof -
  obtain h s where hs: "rgbToHsv [r, g, b] = Some [h, s, max r (max g b)]" "0 \<le> h"
    using rgbToHsv_value [of r g b] by blast
  have "0 \<le> js_rem (h + 0.5) 1 \<and> js_rem (h + 0.5) 1 < 1"
    using hs(2) by (intro js_rem_1_range) simp
  then obtain rgb where "hsvToRgb [js_rem (h + 0.5) 1, targetS, targetV] = Some rgb"
    using hsvToRgb_defined by blast
  with hs(1) show ?thesis by simp
qed

text \<open>
  Claim C8.  For every input \<open>rgbToHsv\<close> returns a triple: no division by zero is
  performed on any path (the saturation divides by \<open>max\<close> only when \<open>max\<close> is not 0, the
  hue divides by \<open>d\<close> only when \<open>d\<close> is not 0, and then by 6), and the hue lies in
  \<open>[0, 1)\<close>.  On a gray input (the largest channel equals the smallest), pure black
  included, the hue and the saturation are 0.
\<close>

theorem rgbToHsv_no_division_by_zero:
  "(\<exists>h s. rgbToHsv [r, g, b] = Some [h, s, max r (max g b)] \<and> 0 \<le> h \<and> h < 1)
   \<and> (max r (max g b) = min r (min g b)
        \<longrightarrow> rgbToHsv [r, g, b] = Some [0, 0, max r (max g b)])
   \<and> rgbToHsv [0, 0, 0] = Some [0, 0, 0]"
proof -
  have "rgbToHsv [r, g, b] = Some [0, 0, max r (max g b)]"
    if "max r (max g b) = min r (min g b)"
  proof -
    from that have "g = r" "b = r" by linarith+
    then show ?thesis using rgbToHsv_gray [of r] by simp
  qed
  then show ?thesis using rgbToHsv_value [of r g b] rgbToHsv_gray [of 0] by blast
qed

text \<open>The theorem at the gray \<open>[1/2, 1/2, 1/2]\<close>; the orange \<open>[1, 1/2, 0]\<close> takes the
  path with the three divisions.\<close>

theorem rgbToHsv_no_division_by_zero_witness:
  "max (1 / 2) (max (1 / 2) (1 / 2)) = min (1 / 2) (min (1 / 2) (1 / 2 :: real))
   \<and> rgbToHsv [1 / 2, 1 / 2, 1 / 2] = Some [0, 0, 1 / 2]
   \<and> rgbToHsv [0, 0, 0] = Some [0, 0, 0]
   \<and> rgbToHsv [1, 1 / 2, 0] = Some [1 / 12, 1, 1]"
proof -
  have "rgbToHsv [1, 1 / 2, 0] = Some [1 / 12, 1, 1]"
    by (simp add: rgbToHsv_def checked_div_def js_rem_def trunc_def)
  then show ?thesis
    using rgbToHsv_no_division_by_zero [of "1 / 2" "1 / 2" "1 / 2"] by simp
qed

section \<open>Properties of the numerical gradients\<close>

lemma gradNumerical_loop_unrolled:
  "gradNumerical_loop bg01 params baseLoss 0 [a, b, c] =
     [(lossForText bg01 (textColorFromParams (params[0 := params ! 0 + eps])) - baseLoss) / eps,
      (lossForText bg01 (textColorFromParams (params[1 := params ! 1 + eps])) - baseLoss) / eps,
      (lossForText bg01 (textColorFromParams (params[2 := params ! 2 + eps])) - baseLoss) / eps]"
  by (simp add: Let_def eval_nat_numeral)

lemma gradThetaNumerical_loop_unrolled:
  "gradThetaNumerical_loop base01 theta baseLoss 0 [a, b, c, d] =
     [(lossForHoverTheta base01 (theta[0 := theta ! 0 + eps]) - baseLoss) / eps,
      (lossForHoverTheta base01 (theta[1 := theta ! 1 + eps]) - baseLoss) / eps,
      (lossForHoverTheta base01 (theta[2 := theta ! 2 + eps]) - baseLoss) / eps,
      (lossForHoverTheta base01 (theta[3 := theta ! 3 + eps]) - baseLoss) / eps]"
  by (simp add: Let_def eval_nat_numeral)

lemma less3_cases: "i < (3::nat) \<Longrightarrow> i = 0 \<or> i = 1 \<or> i = 2"
  by presburger

lemma less4_cases: "i < (4::nat) \<Longrightarrow> i = 0 \<or> i = 1 \<or> i = 2 \<or> i = 3"
  by presburger

lemma gradNumerical_forward:
  assumes "i < 3"
  shows "snd (gradNumerical bg01 params) ! i =
     (lossForText bg01 (textColorFromParams (params[i := params ! i + eps]))
        - lossForText bg01 (textColorFromParams params)) / eps"
  using less3_cases [OF assms]
  by (auto simp add: gradNumerical_def Let_def eval_nat_numeral)

lemma gradThetaNumerical_forward:
  assumes "i < 4"
  shows "snd (gradThetaNumerical base01 theta) ! i =
     (lossForHoverTheta base01 (theta[i := theta ! i + eps])
        - lossForHoverTheta base01 theta) / eps"
  using less4_cases [OF assms]
  by (auto simp add: gradThetaNumerical_def Let_def eval_nat_numeral)

lemma hoverFromBase_black: "hoverFromBase [0, 0, 0] [t, fr, fg, fb] = [0, 0, 0]"
  by (simp add: hoverFromBase_def Let_def clamp01_def)

lemma relLuminance_black: "relLuminance [0, 0, 0] = 0"
  by (simp add: relLuminance_def srgbToLinear_def)

lemma lossForHoverTheta_black:
  "lossForHoverTheta [0, 0, 0] [t, fr, fg, fb] =
     0.04238 + 0.002 * ((t - 0.18) ^ 2 + (fr - 0.82) ^ 2 + (fg - 0.86) ^ 2 + (fb - 0.92) ^ 2)"
  by (simp add: lossForHoverTheta_def Let_def hoverFromBase_black relLuminance_black
      power2_eq_square)

text \<open>
  Claim C1, as amended.  Both estimators perturb one axis at a time by the fixed step
  \<open>eps = 1/1000\<close> and both take the forward difference: the \<open>i\<close>-th component of
  \<open>gradNumerical\<close> is \<open>(f(x + eps e\<^sub>i) - f(x)) / eps\<close> for the loss \<open>lossForText\<close> of the
  3-parameter text colour, and the \<open>i\<close>-th component of \<open>gradThetaNumerical\<close> is the same
  forward difference for \<open>lossForHoverTheta\<close> over the 4-parameter policy; the first
  component of each result is the loss at the point itself.
\<close>

theorem gradients_are_forward_differences:
  assumes "length params = 3" "length theta = 4"
  shows "eps = 1 / 1000
    \<and> fst (gradNumerical bg01 params) = lossForText bg01 (textColorFromParams params)
    \<and> (\<forall>i<3. snd (gradNumerical bg01 params) ! i =
          (lossForText bg01 (textColorFromParams (params[i := params ! i + eps]))
             - lossForText bg01 (textColorFromParams params)) / eps)
    \<and> length (snd (gradNumerical bg01 params)) = 3
    \<and> fst (gradThetaNumerical base01 theta) = lossForHoverTheta base01 theta
    \<and> (\<forall>i<4. snd (gradThetaNumerical base01 theta) ! i =
          (lossForHoverTheta base01 (theta[i := theta ! i + eps])
             - lossForHoverTheta base01 theta) / eps)
    \<and> length (snd (gradThetaNumerical base01 theta)) = 4"
proof -
  have "fst (gradNumerical bg01 params) = lossForText bg01 (textColorFromParams params)"
    by (simp add: gradNumerical_def Let_def)
  moreover have "length (snd (gradNumerical bg01 params)) = 3"
    by (simp add: gradNumerical_def Let_def gradNumerical_loop_unrolled)
  moreover have "fst (gradThetaNumerical base01 theta) = lossForHoverTheta base01 theta"
    by (simp add: gradThetaNumerical_def Let_def)
  moreover have "length (snd (gradThetaNumerical base01 theta)) = 4"
    by (simp add: gradThetaNumerical_def Let_def gradThetaNumerical_loop_unrolled)
  ultimately show ?thesis
    using gradNumerical_forward [of _ bg01 params]
      gradThetaNumerical_forward [of _ base01 theta] eps_def
    by blast
qed

text \<open>The theorem at the white background with parameters \<open>[1/2, 1/2, 1/2]\<close>, and at
  the black base with the default policy, where the component has the value \<open>2e-6\<close>.\<close>

theorem gradients_are_forward_differences_witness:
  "length [1 / 2, 1 / 2, 1 / 2 :: real] = 3 \<and> length [0.18, 0.82, 0.86, 0.92 :: real] = 4
   \<and> snd (gradNumerical [1, 1, 1] [1 / 2, 1 / 2, 1 / 2]) ! 1 =
       (lossForText [1, 1, 1] (textColorFromParams [1 / 2, 1 / 2 + 1 / 1000, 1 / 2])
          - lossForText [1, 1, 1] (textColorFromParams [1 / 2, 1 / 2, 1 / 2])) / (1 / 1000)
   \<and> snd (gradThetaNumerical [0, 0, 0] [0.18, 0.82, 0.86, 0.92]) ! 0 = 1 / 500000"
proof -
  note inst = gradients_are_forward_differences
    [of "[1 / 2, 1 / 2, 1 / 2]" "[0.18, 0.82, 0.86, 0.92]" "[1, 1, 1]" "[0, 0, 0]"]
  have e: "eps = 1 / 1000" using inst by simp
  have "snd (gradNumerical [1, 1, 1] [1 / 2, 1 / 2, 1 / 2]) ! 1 =
       (lossForText [1, 1, 1] (textColorFromParams ([1 / 2, 1 / 2, 1 / 2][1 := [1 / 2, 1 / 2, 1 / 2] ! 1 + eps]))
          - lossForText [1, 1, 1] (textColorFromParams [1 / 2, 1 / 2, 1 / 2])) / eps"
    using inst by simp
  then have a: "snd (gradNumerical [1, 1, 1] [1 / 2, 1 / 2, 1 / 2]) ! 1 =
       (lossForText [1, 1, 1] (textColorFromParams [1 / 2, 1 / 2 + 1 / 1000, 1 / 2])
          - lossForText [1, 1, 1] (textColorFromParams [1 / 2, 1 / 2, 1 / 2])) / (1 / 1000)"
    by (simp add: e)
  have "snd (gradThetaNumerical [0, 0, 0] [0.18, 0.82, 0.86, 0.92]) ! 0 =
      (lossForHoverTheta [0, 0, 0] ([0.18, 0.82, 0.86, 0.92][0 := [0.18, 0.82, 0.86, 0.92] ! 0 + eps])
        - lossForHoverTheta [0, 0, 0] [0.18, 0.82, 0.86, 0.92]) / eps"
    using inst by simp
  then have b: "snd (gradThetaNumerical [0, 0, 0] [0.18, 0.82, 0.86, 0.92]) ! 0 = 1 / 500000"
    by (simp add: e lossForHoverTheta_black power2_eq_square)
  show ?thesis using a b by simp
qed

text \<open>
  The claim as stated has \<open>gradThetaNumerical\<close> return the central difference.  At the
  black base and the default policy \<open>[0.18, 0.82, 0.86, 0.92]\<close> the loss is
  \<open>0.04238 + 0.002 * |theta - prior|\<^sup>2\<close>: the central difference along axis 0 is 0,
  the code's result is \<open>2e-6\<close>.
\<close>

theorem gradThetaNumerical_not_central:
  "snd (gradThetaNumerical [0, 0, 0] [0.18, 0.82, 0.86, 0.92]) ! 0 = 1 / 500000
   \<and> (lossForHoverTheta [0, 0, 0] [0.18 + eps, 0.82, 0.86, 0.92]
        - lossForHoverTheta [0, 0, 0] [0.18 - eps, 0.82, 0.86, 0.92]) / (2 * eps) = 0
   \<and> snd (gradThetaNumerical [0, 0, 0] [0.18, 0.82, 0.86, 0.92]) ! 0
       \<noteq> (lossForHoverTheta [0, 0, 0] [0.18 + eps, 0.82, 0.86, 0.92]
            - lossForHoverTheta [0, 0, 0] [0.18 - eps, 0.82, 0.86, 0.92]) / (2 * eps)"
proof -
  have a: "snd (gradThetaNumerical [0, 0, 0] [0.18, 0.82, 0.86, 0.92]) ! 0 = 1 / 500000"
    by (simp add: gradThetaNumerical_forward lossForHoverTheta_black eps_def power2_eq_square)
  have b: "(lossForHoverTheta [0, 0, 0] [0.18 + eps, 0.82, 0.86, 0.92]
        - lossForHoverTheta [0, 0, 0] [0.18 - eps, 0.82, 0.86, 0.92]) / (2 * eps) = 0"
    by (simp add: lossForHoverTheta_black eps_def power2_eq_square)
  show ?thesis unfolding a b by simp
qed

section \<open>Properties of the optimisers\<close>

declare optimizeText_loop.simps [simp del]
declare optimizeHoverTheta_loop.simps [simp del]

lemma length4E:
  assumes "length xs = 4"
  obtains a b c d where "xs = [a, b, c, d]"
proof -
  from assms obtain a ys where 1: "xs = a # ys" "length ys = 3" by (cases xs) auto
  then obtain b c d where "ys = [b, c, d]" by (auto elim: length3E)
  with 1 that show ?thesis by simp
qed

lemma hoverIter_theta:
  assumes "length theta = 4"
  shows "snd (hoverIter base01 s (lr, theta)) =
     (let g = snd (gradThetaNumerical base01 theta) in
      [max 0.35 (clamp01 (theta ! 0 - lr * g ! 0)),
       clamp01 (max 0.35 (theta ! 1 - lr * g ! 1)),
       clamp01 (max 0.35 (theta ! 2 - lr * g ! 2)),
       clamp01 (max 0.35 (theta ! 3 - lr * g ! 3))])"
proof -
  from assms obtain a b c d where th: "theta = [a, b, c, d]" by (rule length4E)
  have up: "[0..<length theta] = [0, Suc 0, Suc (Suc 0), Suc (Suc (Suc 0))]"
    unfolding th by (simp add: upt_rec)
  show ?thesis
    unfolding hoverIter_def Let_def by (simp add: up eval_nat_numeral)
qed

lemma box_first: "0.35 \<le> max 0.35 (clamp01 x) \<and> max 0.35 (clamp01 x) \<le> (1::real)"
  by (simp add: clamp01_def)

lemma box_rest: "0.35 \<le> clamp01 (max 0.35 x) \<and> clamp01 (max 0.35 x) \<le> (1::real)"
  by (simp add: clamp01_def)

lemma hoverIter_box:
  assumes "length theta = 4"
  shows "length (snd (hoverIter base01 s (lr, theta))) = 4
    \<and> (\<forall>x \<in> set (snd (hoverIter base01 s (lr, theta))). 0.35 \<le> x \<and> x \<le> 1)"
  unfolding hoverIter_theta [OF assms] Let_def
  using box_first box_rest by simp

lemma hoverIter_box':
  assumes "length (snd st) = 4"
  shows "length (snd (hoverIter base01 s st)) = 4
    \<and> (\<forall>x \<in> set (snd (hoverIter base01 s st)). 0.35 \<le> x \<and> x \<le> 1)"
  using hoverIter_box [of "snd st" base01 s "fst st"] assms by simp

lemma optimizeHoverTheta_loop_box:
  assumes "s < steps" "length (snd st) = 4"
  shows "length (snd (optimizeHoverTheta_loop base01 steps s st)) = 4
    \<and> (\<forall>x \<in> set (snd (optimizeHoverTheta_loop base01 steps s st)). 0.35 \<le> x \<and> x \<le> 1)"
  using assms
proof (induction base01 steps s st rule: optimizeHoverTheta_loop.induct)
  case (1 base01 steps s st)
  note it = hoverIter_box' [OF "1.prems"(2), of base01 s]
  show ?case
  proof (cases "s + 1 < steps")
    case True
    have "optimizeHoverTheta_loop base01 steps s st =
        optimizeHoverTheta_loop base01 steps (s + 1) (hoverIter base01 s st)"
      using "1.prems"(1) by (subst optimizeHoverTheta_loop.simps) simp
    then show ?thesis using "1.IH" [OF "1.prems"(1) True] it by simp
  next
    case False
    have "optimizeHoverTheta_loop base01 steps s st =
        optimizeHoverTheta_loop base01 steps (s + 1) (hoverIter base01 s st)"
      using "1.prems"(1) by (subst optimizeHoverTheta_loop.simps) simp
    also have "\<dots> = hoverIter base01 s st"
      using False by (subst optimizeHoverTheta_loop.simps) simp
    finally show ?thesis using it by simp
  qed
qed

lemma optimizeHoverTheta_loop_split:
  assumes "s \<le> k" "k \<le> steps"
  shows "optimizeHoverTheta_loop base01 steps s st =
     optimizeHoverTheta_loop base01 steps k (optimizeHoverTheta_loop base01 k s st)"
  using assms
proof (induction base01 k s st rule: optimizeHoverTheta_loop.induct)
  case (1 base01 k s st)
  show ?case
  proof (cases "s < k")
    case True
    then have a: "optimizeHoverTheta_loop base01 k s st =
        optimizeHoverTheta_loop base01 k (s + 1) (hoverIter base01 s st)"
      by (subst optimizeHoverTheta_loop.simps) simp
    have b: "optimizeHoverTheta_loop base01 steps s st =
        optimizeHoverTheta_loop base01 steps (s + 1) (hoverIter base01 s st)"
      using True "1.prems"(2) by (subst optimizeHoverTheta_loop.simps) simp
    show ?thesis unfolding a b using "1.IH" [OF True] True "1.prems"(2) by simp
  next
    case False
    then have "s = k" using "1.prems"(1) by simp
    moreover have "optimizeHoverTheta_loop base01 k k st = st"
      by (subst optimizeHoverTheta_loop.simps) simp
    ultimately show ?thesis by simp
  qed
qed

lemma textIter_params:
  "snd (textIter bg01 s (lr, p)) =
     map (\<lambda>i. p ! i - lr * snd (gradNumerical bg01 p) ! i) [0..<length p]"
  by (simp add: textIter_def Let_def)

lemma textIter_zero_rate: "textIter bg01 s (0, p) = (0, p)"
  by (simp add: textIter_def Let_def map_nth)

lemma optimizeText_loop_zero_rate: "optimizeText_loop bg01 steps s (0, p) = (0, p)"
proof (induction bg01 steps s "(0 :: real, p)" rule: optimizeText_loop.induct)
  case (1 bg01 steps s)
  show ?case
  proof (cases "s < steps")
    case True
    then have "optimizeText_loop bg01 steps s (0, p) =
        optimizeText_loop bg01 steps (s + 1) (textIter bg01 s (0, p))"
      by (subst optimizeText_loop.simps) simp
    then show ?thesis using "1.hyps" [OF True] by (simp add: textIter_zero_rate)
  next
    case False
    then show ?thesis by (subst optimizeText_loop.simps) simp
  qed
qed

lemma floor_cap_first: "max 0.35 (clamp01 x) = min 1 (max 0.35 x)"
  by (simp add: clamp01_def max_def min_def)

lemma floor_cap_rest: "clamp01 (max 0.35 x) = min 1 (max 0.35 x)"
  by (simp add: clamp01_def max_def min_def)

lemma hoverIter_floor_cap:
  assumes "length theta = 4"
  shows "snd (hoverIter base01 s (lr, theta)) =
     [min 1 (max 0.35 (theta ! 0 - lr * snd (gradThetaNumerical base01 theta) ! 0)),
      min 1 (max 0.35 (theta ! 1 - lr * snd (gradThetaNumerical base01 theta) ! 1)),
      min 1 (max 0.35 (theta ! 2 - lr * snd (gradThetaNumerical base01 theta) ! 2)),
      min 1 (max 0.35 (theta ! 3 - lr * snd (gradThetaNumerical base01 theta) ! 3))]"
  unfolding hoverIter_theta [OF assms] Let_def floor_cap_first floor_cap_rest by (rule refl)

lemma hoverIter_rate:
  "fst (hoverIter base01 s (lr, theta)) =
     (if s = 60 then lr * 0.6 else if s = 110 then lr * 0.7 else lr)"
  by (simp add: hoverIter_def Let_def)

lemma textIter_rate:
  "fst (textIter bg01 s (lr, p)) =
     (if s = 60 then lr * 0.6 else if s = 110 then lr * 0.7 else lr)"
  by (simp add: textIter_def Let_def)

lemma optimizeHoverTheta_loop_done: "optimizeHoverTheta_loop base01 k k st = st"
  by (subst optimizeHoverTheta_loop.simps) simp

lemma optimizeHoverTheta_loop_last:
  "optimizeHoverTheta_loop base01 (Suc k) k st = hoverIter base01 k st"
  by (subst optimizeHoverTheta_loop.simps) (simp add: optimizeHoverTheta_loop_done)

lemma optimizeHoverTheta_loop_Suc:
  "optimizeHoverTheta_loop base01 (Suc k) 0 st =
     hoverIter base01 k (optimizeHoverTheta_loop base01 k 0 st)"
  using optimizeHoverTheta_loop_split [of 0 k "Suc k" base01 st]
  by (simp add: optimizeHoverTheta_loop_last)

lemma optimizeText_loop_done: "optimizeText_loop bg01 k k st = st"
  by (subst optimizeText_loop.simps) simp

lemma optimizeText_loop_last:
  "optimizeText_loop bg01 (Suc k) k st = textIter bg01 k st"
  by (subst optimizeText_loop.simps) (simp add: optimizeText_loop_done)

lemma optimizeText_loop_split:
  assumes "s \<le> k" "k \<le> steps"
  shows "optimizeText_loop bg01 steps s st =
     optimizeText_loop bg01 steps k (optimizeText_loop bg01 k s st)"
  using assms
proof (induction bg01 k s st rule: optimizeText_loop.induct)
  case (1 bg01 k s st)
  show ?case
  proof (cases "s < k")
    case True
    then have a: "optimizeText_loop bg01 k s st =
        optimizeText_loop bg01 k (s + 1) (textIter bg01 s st)"
      by (subst optimizeText_loop.simps) simp
    have b: "optimizeText_loop bg01 steps s st =
        optimizeText_loop bg01 steps (s + 1) (textIter bg01 s st)"
      using True "1.prems"(2) by (subst optimizeText_loop.simps) simp
    show ?thesis unfolding a b using "1.IH" [OF True] True "1.prems"(2) by simp
  next
    case False
    then have "s = k" using "1.prems"(1) by simp
    then show ?thesis by (simp add: optimizeText_loop_done)
  qed
qed

lemma optimizeText_loop_Suc:
  "optimizeText_loop bg01 (Suc k) 0 st = textIter bg01 k (optimizeText_loop bg01 k 0 st)"
  using optimizeText_loop_split [of 0 k "Suc k" bg01 st]
  by (simp add: optimizeText_loop_last)

lemma optimizeHoverTheta_loop_length:
  assumes "length (snd st) = 4"
  shows "length (snd (optimizeHoverTheta_loop base01 k 0 st)) = 4"
proof (cases k)
  case 0
  then show ?thesis using assms by (simp add: optimizeHoverTheta_loop_done)
next
  case (Suc n)
  then show ?thesis using optimizeHoverTheta_loop_box [of 0 k st base01] assms by simp
qed

text \<open>
  Claim C5.  One iteration of the policy optimiser takes each of the four entries
  \<open>theta\<^sub>i\<close> to \<open>min 1 (max 0.35 (theta\<^sub>i - lr * g\<^sub>i))\<close>: the updated value floored at
  0.35 and capped at 1 (for the mix fraction the code clamps to \<open>[0, 1]\<close> first and
  floors then, for the three factors it floors first; both are this value).  The
  learning rate is multiplied by 0.6 at counter 60 and by 0.7 at counter 110.  The run
  starts from the initial state and the run to \<open>k + 1\<close> is one iteration, at counter
  \<open>k\<close>, on the run to \<open>k\<close>; the returned policy is the state of the run to \<open>steps\<close>,
  and the run to \<open>steps\<close> passes through the run to every \<open>k \<le> steps\<close>.  Hence the
  policy keeps its four entries, and after one iteration, after any positive number of
  iterations and after the 900 of the default budget all of them lie in
  \<open>[0.35, 1]\<close>.  The text optimiser runs the same loop with the plain update
  \<open>p\<^sub>i - lr * g\<^sub>i\<close> and no clamp: with learning rate 0 it returns any initial vector
  unchanged, inside the box or not.
\<close>

theorem hover_policy_box_constraint:
  "(length theta = 4 \<longrightarrow>
      snd (hoverIter base01 s (lr, theta)) =
        [min 1 (max 0.35 (theta ! 0 - lr * snd (gradThetaNumerical base01 theta) ! 0)),
         min 1 (max 0.35 (theta ! 1 - lr * snd (gradThetaNumerical base01 theta) ! 1)),
         min 1 (max 0.35 (theta ! 2 - lr * snd (gradThetaNumerical base01 theta) ! 2)),
         min 1 (max 0.35 (theta ! 3 - lr * snd (gradThetaNumerical base01 theta) ! 3))])
   \<and> fst (hoverIter base01 s (lr, theta)) =
        (if s = 60 then lr * 0.6 else if s = 110 then lr * 0.7 else lr)
   \<and> optimizeHoverTheta_loop base01 0 0 (lr, initTheta) = (lr, initTheta)
   \<and> optimizeHoverTheta_loop base01 (Suc k) 0 (lr, initTheta) =
        hoverIter base01 k (optimizeHoverTheta_loop base01 k 0 (lr, initTheta))
   \<and> hr_theta (optimizeHoverTheta base01 steps lr initTheta) =
        snd (optimizeHoverTheta_loop base01 steps 0 (lr, initTheta))
   \<and> (length initTheta = 4 \<longrightarrow>
        length (snd (optimizeHoverTheta_loop base01 k 0 (lr, initTheta))) = 4)
   \<and> (length theta = 4 \<longrightarrow>
      (\<forall>x \<in> set (snd (hoverIter base01 s (lr, theta))). 0.35 \<le> x \<and> x \<le> 1))
   \<and> (length initTheta = 4 \<and> 0 < k \<longrightarrow>
      (\<forall>x \<in> set (snd (optimizeHoverTheta_loop base01 k 0 (lr, initTheta))). 0.35 \<le> x \<and> x \<le> 1))
   \<and> (k \<le> steps \<longrightarrow>
      optimizeHoverTheta_loop base01 steps 0 (lr, initTheta) =
        optimizeHoverTheta_loop base01 steps k (optimizeHoverTheta_loop base01 k 0 (lr, initTheta)))
   \<and> (length initTheta = 4 \<longrightarrow>
      (\<forall>x \<in> set (hr_theta (optimizeHoverTheta base01 900 lr initTheta)). 0.35 \<le> x \<and> x \<le> 1))
   \<and> snd (textIter bg01 s (lr, p)) =
        map (\<lambda>i. p ! i - lr * snd (gradNumerical bg01 p) ! i) [0..<length p]
   \<and> fst (textIter bg01 s (lr, p)) =
        (if s = 60 then lr * 0.6 else if s = 110 then lr * 0.7 else lr)
   \<and> optimizeText_loop bg01 0 0 (lr, p) = (lr, p)
   \<and> optimizeText_loop bg01 (Suc k) 0 (lr, p) =
        textIter bg01 k (optimizeText_loop bg01 k 0 (lr, p))
   \<and> tr_params (optimizeText bg01 steps lr p) = snd (optimizeText_loop bg01 steps 0 (lr, p))
   \<and> tr_params (optimizeText bg01 steps 0 p) = p"
proof -
  have fc: "snd (hoverIter base01 s (lr, theta)) =
        [min 1 (max 0.35 (theta ! 0 - lr * snd (gradThetaNumerical base01 theta) ! 0)),
         min 1 (max 0.35 (theta ! 1 - lr * snd (gradThetaNumerical base01 theta) ! 1)),
         min 1 (max 0.35 (theta ! 2 - lr * snd (gradThetaNumerical base01 theta) ! 2)),
         min 1 (max 0.35 (theta ! 3 - lr * snd (gradThetaNumerical base01 theta) ! 3))]"
    if "length theta = 4"
    using that by (rule hoverIter_floor_cap)
  have res: "hr_theta (optimizeHoverTheta base01 steps lr initTheta) =
        snd (optimizeHoverTheta_loop base01 steps 0 (lr, initTheta))"
    by (simp add: optimizeHoverTheta_def Let_def)
  have len: "length (snd (optimizeHoverTheta_loop base01 k 0 (lr, initTheta))) = 4"
    if "length initTheta = 4"
    using optimizeHoverTheta_loop_length [of "(lr, initTheta)" base01 k] that by simp
  have a: "\<forall>x \<in> set (snd (hoverIter base01 s (lr, theta))). 0.35 \<le> x \<and> x \<le> 1"
    if "length theta = 4"
    using hoverIter_box [OF that] by blast
  have b: "\<forall>x \<in> set (snd (optimizeHoverTheta_loop base01 n 0 (lr, initTheta))). 0.35 \<le> x \<and> x \<le> 1"
    if "length initTheta = 4" "0 < n" for n
    using optimizeHoverTheta_loop_box [of 0 n "(lr, initTheta)" base01] that by simp
  have c: "optimizeHoverTheta_loop base01 steps 0 (lr, initTheta) =
        optimizeHoverTheta_loop base01 steps k (optimizeHoverTheta_loop base01 k 0 (lr, initTheta))"
    if "k \<le> steps"
    using optimizeHoverTheta_loop_split [of 0 k steps] that by simp
  have d: "\<forall>x \<in> set (hr_theta (optimizeHoverTheta base01 900 lr initTheta)). 0.35 \<le> x \<and> x \<le> 1"
    if "length initTheta = 4"
    using b [OF that, of 900] by (simp add: optimizeHoverTheta_def Let_def)
  have tres: "tr_params (optimizeText bg01 steps lr p) = snd (optimizeText_loop bg01 steps 0 (lr, p))"
    by (simp add: optimizeText_def Let_def)
  have e: "tr_params (optimizeText bg01 steps 0 p) = p"
    by (simp add: optimizeText_def Let_def optimizeText_loop_zero_rate)
  show ?thesis
    using fc hoverIter_rate [of base01 s lr theta]
      optimizeHoverTheta_loop_done [of base01 0 "(lr, initTheta)"]
      optimizeHoverTheta_loop_Suc [of base01 k "(lr, initTheta)"]
      res len a b c d textIter_params [of bg01 s lr p] textIter_rate [of bg01 s lr p]
      optimizeText_loop_done [of bg01 0 "(lr, p)"]
      optimizeText_loop_Suc [of bg01 k "(lr, p)"] tres e
    by blast
qed

text \<open>With learning rate 0 the policy optimiser still moves \<open>[5, 5, 5, 5]\<close> into the
  box, in one iteration.\<close>

lemma optimizeHoverTheta_zero_rate_example:
  "hr_theta (optimizeHoverTheta base01 1 0 [5, 5, 5, 5]) = [1, 1, 1, 1]"
proof -
  have "optimizeHoverTheta_loop base01 1 0 (0, [5, 5, 5, 5]) = hoverIter base01 0 (0, [5, 5, 5, 5])"
    by (subst optimizeHoverTheta_loop.simps, simp, subst optimizeHoverTheta_loop.simps, simp)
  moreover have "snd (hoverIter base01 0 (0, [5, 5, 5, 5])) = [1, 1, 1, 1]"
    by (simp add: hoverIter_theta Let_def clamp01_def)
  ultimately show ?thesis by (simp add: optimizeHoverTheta_def Let_def)
qed

text \<open>The gradient at the black base and the policy \<open>[-3, 0.1, 0.2, 7]\<close>.\<close>

lemma grad_black:
  "snd (gradThetaNumerical [0, 0, 0] [- 3, 0.1, 0.2, 7]) ! 0 = - 6359 / 500000"
  "snd (gradThetaNumerical [0, 0, 0] [- 3, 0.1, 0.2, 7]) ! 1 = - 1439 / 500000"
  "snd (gradThetaNumerical [0, 0, 0] [- 3, 0.1, 0.2, 7]) ! 2 = - 1319 / 500000"
  "snd (gradThetaNumerical [0, 0, 0] [- 3, 0.1, 0.2, 7]) ! 3 = 12161 / 500000"
  by (simp_all add: gradThetaNumerical_forward lossForHoverTheta_black eps_def power2_eq_square)

text \<open>The theorem at the black base: one iteration at rate 1.4 takes
  \<open>[-3, 0.1, 0.2, 7]\<close> to \<open>[0.35, 0.35, 0.35, 1]\<close>; the default run of 900
  iterations, its state after the first and the second; and the text optimiser from
  \<open>[5, 5, 5]\<close> at learning rate 0.\<close>

theorem hover_policy_box_constraint_witness:
  "length [- 3, 0.1, 0.2, 7 :: real] = 4 \<and> length [0.18, 0.82, 0.86, 0.92 :: real] = 4
   \<and> (0 :: nat) < 1 \<and> (1 :: nat) \<le> 900
   \<and> snd (hoverIter [0, 0, 0] 0 (1.4, [- 3, 0.1, 0.2, 7])) = [0.35, 0.35, 0.35, 1]
   \<and> fst (hoverIter [0, 0, 0] 0 (1.4, [- 3, 0.1, 0.2, 7])) = 1.4
   \<and> optimizeHoverTheta_loop [0, 0, 0] (Suc 1) 0 (1.4, [0.18, 0.82, 0.86, 0.92]) =
        hoverIter [0, 0, 0] 1
          (optimizeHoverTheta_loop [0, 0, 0] 1 0 (1.4, [0.18, 0.82, 0.86, 0.92]))
   \<and> length (snd (optimizeHoverTheta_loop [0, 0, 0] 1 0 (1.4, [0.18, 0.82, 0.86, 0.92]))) = 4
   \<and> list_all (\<lambda>x. 0.35 \<le> x \<and> x \<le> 1)
        (snd (optimizeHoverTheta_loop [0, 0, 0] 1 0 (1.4, [0.18, 0.82, 0.86, 0.92])))
   \<and> optimizeHoverTheta_loop [0, 0, 0] 900 0 (1.4, [0.18, 0.82, 0.86, 0.92]) =
        optimizeHoverTheta_loop [0, 0, 0] 900 1
          (optimizeHoverTheta_loop [0, 0, 0] 1 0 (1.4, [0.18, 0.82, 0.86, 0.92]))
   \<and> list_all (\<lambda>x. 0.35 \<le> x \<and> x \<le> 1)
        (hr_theta (optimizeHoverTheta [0, 0, 0] 900 1.4 [0.18, 0.82, 0.86, 0.92]))
   \<and> hr_theta (optimizeHoverTheta [0, 0, 0] 1 0 [5, 5, 5, 5]) = [1, 1, 1, 1]
   \<and> tr_params (optimizeText [0, 0, 0] 900 0 [5, 5, 5]) = [5, 5, 5]"
proof -
  note inst = hover_policy_box_constraint
    [of "[- 3, 0.1, 0.2, 7]" "[0, 0, 0]" 0 "1.4" "[0.18, 0.82, 0.86, 0.92]" 1 900 "[0, 0, 0]" "[5, 5, 5]"]
  have len: "length [- 3, 0.1, 0.2, 7 :: real] = 4" "length [0.18, 0.82, 0.86, 0.92 :: real] = 4"
    and ord: "(0 :: nat) < 1" "(1 :: nat) \<le> 900"
    by simp_all
  have "snd (hoverIter [0, 0, 0] 0 (1.4, [- 3, 0.1, 0.2, 7])) =
      [min 1 (max 0.35 ([- 3, 0.1, 0.2, 7] ! 0
          - 1.4 * snd (gradThetaNumerical [0, 0, 0] [- 3, 0.1, 0.2, 7]) ! 0)),
       min 1 (max 0.35 ([- 3, 0.1, 0.2, 7] ! 1
          - 1.4 * snd (gradThetaNumerical [0, 0, 0] [- 3, 0.1, 0.2, 7]) ! 1)),
       min 1 (max 0.35 ([- 3, 0.1, 0.2, 7] ! 2
          - 1.4 * snd (gradThetaNumerical [0, 0, 0] [- 3, 0.1, 0.2, 7]) ! 2)),
       min 1 (max 0.35 ([- 3, 0.1, 0.2, 7] ! 3
          - 1.4 * snd (gradThetaNumerical [0, 0, 0] [- 3, 0.1, 0.2, 7]) ! 3))]"
    using inst len(1) by blast
  then have it: "snd (hoverIter [0, 0, 0] 0 (1.4, [- 3, 0.1, 0.2, 7])) = [0.35, 0.35, 0.35, 1]"
    by (simp only: grad_black) simp
  have rate: "fst (hoverIter [0, 0, 0] 0 (1.4, [- 3, 0.1, 0.2, 7])) = 1.4"
    using inst by simp
  have suc: "optimizeHoverTheta_loop [0, 0, 0] (Suc 1) 0 (1.4, [0.18, 0.82, 0.86, 0.92]) =
        hoverIter [0, 0, 0] 1
          (optimizeHoverTheta_loop [0, 0, 0] 1 0 (1.4, [0.18, 0.82, 0.86, 0.92]))"
    using inst by blast
  have l4: "length (snd (optimizeHoverTheta_loop [0, 0, 0] 1 0 (1.4, [0.18, 0.82, 0.86, 0.92]))) = 4"
    using inst len(2) by blast
  have b: "\<forall>x \<in> set (snd (optimizeHoverTheta_loop [0, 0, 0] 1 0 (1.4, [0.18, 0.82, 0.86, 0.92]))).
      0.35 \<le> x \<and> x \<le> 1"
    using inst len(2) ord(1) by blast
  have c: "optimizeHoverTheta_loop [0, 0, 0] 900 0 (1.4, [0.18, 0.82, 0.86, 0.92]) =
        optimizeHoverTheta_loop [0, 0, 0] 900 1
          (optimizeHoverTheta_loop [0, 0, 0] 1 0 (1.4, [0.18, 0.82, 0.86, 0.92]))"
    using inst ord(2) by blast
  have d: "\<forall>x \<in> set (hr_theta (optimizeHoverTheta [0, 0, 0] 900 1.4 [0.18, 0.82, 0.86, 0.92])).
      0.35 \<le> x \<and> x \<le> 1"
    using inst len(2) by blast
  have e: "tr_params (optimizeText [0, 0, 0] 900 0 [5, 5, 5]) = [5, 5, 5]"
    using inst by blast
  show ?thesis
    using len ord it rate suc l4 b c d e optimizeHoverTheta_zero_rate_example [of "[0, 0, 0]"]
    unfolding list_all_iff by blast
qed

section \<open>Properties of the pipeline\<close>

text \<open>
  Claim C6.  In both variants of \<open>applyChain\<close> the hover-text result is the text
  optimiser run on the hover background with the default budget and learning rate and
  with the initial parameters \<open>tr_params\<close> of the base-text result.  The base-text
  result comes from the fixed start \<open>[0.5, 0.5, 0.5]\<close>, and the hover background is
  computed from the base colour alone, so the initial parameters are the one place
  where the base-text stage enters the hover-text stage.
\<close>

theorem applyChain_warm_start:
  "p_hoverText (applyChain baseRgb255) =
     optimizeText (p_hover01 (applyChain baseRgb255)) 160 0.35
       (tr_params (p_baseText (applyChain baseRgb255)))
   \<and> p_baseText (applyChain baseRgb255) =
       optimizeText (rgb01 baseRgb255) 160 0.35 [0.5, 0.5, 0.5]
   \<and> p_hover01 (applyChain baseRgb255) =
       hoverFromBase (rgb01 baseRgb255)
         (hr_theta (optimizeHoverTheta (rgb01 baseRgb255) 900 1.4 [0.18, 0.82, 0.86, 0.92]))
   \<and> p_hoverText (applyChain_simple baseRgb255) =
       optimizeText (p_hover01 (applyChain_simple baseRgb255)) 160 0.35
         (tr_params (p_baseText (applyChain_simple baseRgb255)))
   \<and> p_baseText (applyChain_simple baseRgb255) =
       optimizeText (rgb01 baseRgb255) 160 0.35 [0.5, 0.5, 0.5]
   \<and> p_hover01 (applyChain_simple baseRgb255) = hoverFromBase_fixed (rgb01 baseRgb255)"
  by (simp add: applyChain_def applyChain_simple_def Let_def)

end
